theory Spec2Isabelle
  imports Complex_Main "HOL-Library.Word" "HOL-Library.FSet" "HOL-Library.AList"
begin

unbundle bit_operations_syntax

section \<open>The Heart Rate Measurement decoder\<close>

text \<open>
  A notification payload is a Python \<^verbatim>\<open>bytes\<close> or \<^verbatim>\<open>bytearray\<close>: a finite
  sequence of octets, here a list of 8-bit words. Indexing a byte sequence gives a
  Python integer in the range 0..255, the unsigned value of the octet; the decoder
  returns an optional Python integer.
\<close>

type_synonym byte = "8 word"

text \<open>
  \<^verbatim>\<open>int.from_bytes(b, byteorder="little")\<close>: the first octet is the least
  significant one.
\<close>

fun int_from_bytes_little :: "byte list \<Rightarrow> int" where
  "int_from_bytes_little [] = 0"
| "int_from_bytes_little (b # bs) = uint b + 256 * int_from_bytes_little bs"

text \<open>The slice \<^verbatim>\<open>data[i:j]\<close> for \<open>0 \<le> i \<le> j\<close>; a slice never raises.\<close>

definition slice :: "'a list \<Rightarrow> nat \<Rightarrow> nat \<Rightarrow> 'a list" where
  "slice xs i j = take (j - i) (drop i xs)"

text \<open>
  \<^verbatim>\<open>parse_hr_measurement\<close> of \<^verbatim>\<open>ble_hr_corebluetooth.py\<close>. The test
  \<^verbatim>\<open>not data\<close> holds for the empty sequence; \<^verbatim>\<open>flags & 0x01\<close> is truthy when
  it is not zero. Both index reads happen behind a length check, so no IndexError
  can be raised.
\<close>

definition parse_hr_measurement :: "byte list \<Rightarrow> int option" where
  "parse_hr_measurement data =
     (if data = [] \<or> length data < 2 then None
      else let flags = data ! 0; hr_16bit = flags AND 1 in
        if hr_16bit \<noteq> 0 then
          (if length data < 3 then None
           else Some (int_from_bytes_little (slice data 1 3)))
        else Some (uint (data ! 1)))"

text \<open>
  \<^verbatim>\<open>parse_hr_measurement\<close> of \<^verbatim>\<open>ble_hr_gatt.py\<close>: it binds the 16-bit value to
  a local \<^verbatim>\<open>hr\<close> before returning it.
\<close>

definition parse_hr_measurement_gatt :: "byte list \<Rightarrow> int option" where
  "parse_hr_measurement_gatt data =
     (if data = [] \<or> length data < 2 then None
      else let flags = data ! 0; hr_16bit = flags AND 1 in
        if hr_16bit \<noteq> 0 then
          (if length data < 3 then None
           else let hr = int_from_bytes_little (slice data 1 3) in Some hr)
        else Some (uint (data ! 1)))"

text \<open>\<^verbatim>\<open>parse_hr_measurement\<close> of \<^verbatim>\<open>apple_watch_probe.py\<close>.\<close>

definition parse_hr_measurement_probe :: "byte list \<Rightarrow> int option" where
  "parse_hr_measurement_probe data =
     (if data = [] \<or> length data < 2 then None
      else let flags = data ! 0; hr_16bit = flags AND 1 in
        if hr_16bit \<noteq> 0 then
          (if length data < 3 then None
           else Some (int_from_bytes_little (slice data 1 3)))
        else Some (uint (data ! 1)))"

text \<open>
  The decoder as section 4.1 of the specification words it: no value below two
  octets; bit 0 of octet 0 selects the width; a 16-bit little-endian unsigned value
  at octets 1 and 2 (no value below three octets) or the unsigned value of octet 1.
\<close>

definition decode_bpm_spec :: "byte list \<Rightarrow> int option" where
  "decode_bpm_spec data =
     (if length data < 2 then None
      else if bit (data ! 0) 0 then
        (if length data < 3 then None
         else Some (uint (data ! 1) + 256 * uint (data ! 2)))
      else Some (uint (data ! 1)))"

section \<open>Strings\<close>

text \<open>
  \<^verbatim>\<open>str.lower()\<close> on the ASCII letters (names and identifiers are modelled as
  byte strings), and the substring test \<^verbatim>\<open>want in name\<close>.
\<close>

definition lower_char :: "char \<Rightarrow> char" where
  "lower_char c =
     (if (65::nat) \<le> of_char c \<and> of_char c \<le> (90::nat)
      then char_of (of_char c + (32::nat)) else c)"

definition lower :: "string \<Rightarrow> string" where
  "lower s = map lower_char s"

fun starts_with :: "string \<Rightarrow> string \<Rightarrow> bool" where
  "starts_with [] ys = True"
| "starts_with (x # xs) [] = False"
| "starts_with (x # xs) (y # ys) = (x = y \<and> starts_with xs ys)"

fun str_in :: "string \<Rightarrow> string \<Rightarrow> bool" where
  "str_in want [] = (want = [])"
| "str_in want (c # cs) = (starts_with want (c # cs) \<or> str_in want cs)"

text \<open>
  Truthiness of an optional string (\<^verbatim>\<open>if name:\<close>) and the idiom
  \<^verbatim>\<open>(x or "")\<close>.
\<close>

fun truthy :: "string option \<Rightarrow> bool" where
  "truthy None = False"
| "truthy (Some n) = (n \<noteq> [])"

fun or_empty :: "string option \<Rightarrow> string" where
  "or_empty None = []"
| "or_empty (Some n) = n"

section \<open>The CoreBluetooth delegate: data\<close>

type_synonym device_id = string

text \<open>
  \<^verbatim>\<open>time.time()\<close> returns seconds since the epoch. Times are modelled as real
  numbers; every callback receives the clock reading \<open>now\<close> as an argument, and all
  clock reads inside one callback see the same reading.
\<close>

type_synonym time = real

text \<open>
  What the delegate reads of the objects the transport hands over: a service's UUID
  and the UUIDs of its characteristics (\<^verbatim>\<open>service.characteristics()\<close> may be
  nil), a peripheral's identifier, name (may be nil) and services (may be nil), and
  the local name of an advertisement dictionary (the key may be missing).
\<close>

datatype service = Service (service_uuid: string) (service_characteristics: "string list option")

datatype peripheral =
  Peripheral (periph_identifier: device_id) (periph_name: "string option")
    (periph_services: "service list option")

datatype advertisement = Advertisement (local_name: "string option")

definition HR_SERVICE :: string where
  "HR_SERVICE = ''180D''"

definition HR_MEAS :: string where
  "HR_MEAS = ''2A37''"

text \<open>
  The fire-and-forget calls to the transport, in the order they are issued.
\<close>

datatype request =
    ScanForPeripherals "string list option"
  | StopScan
  | SetDelegate device_id
  | ConnectPeripheral device_id
  | CancelPeripheralConnection device_id
  | DiscoverServices device_id "string list"
  | DiscoverCharacteristics device_id "string list" string
  | SetNotifyValue device_id bool string

text \<open>The status lines printed to standard error, with their format arguments.\<close>

datatype message =
    Reconnecting string real string
  | BluetoothNotReady real string
  | ReconnectAttemptConnect string
  | ReconnectAttemptScan
  | FailedToConnect
  | DisconnectedMsg
  | Ignoring string string real

datatype exn = AttributeError

text \<open>
  The fields of \<^verbatim>\<open>HRDelegate\<close>. \<open>central\<close> says whether \<^verbatim>\<open>self.central\<close> has
  been set. The dictionaries \<^verbatim>\<open>peripherals\<close>, \<^verbatim>\<open>name_by_id\<close> and
  \<^verbatim>\<open>blocked_ids\<close> are only looked up, so they are maps; \<^verbatim>\<open>pending_reconnect\<close>
  is iterated by \<^verbatim>\<open>tick\<close>, so it is an association list in insertion order
  with \<open>AList.update\<close> for \<^verbatim>\<open>d[k] = v\<close> (in place, or appended when the key is
  new) and \<open>AList.delete\<close> for \<^verbatim>\<open>del d[k]\<close>. The two Python sets are finite
  sets. The last five fields record the effects: transport calls, standard error,
  standard output, the JSONL records written, and exceptions that leave a callback.
\<close>

record delegate =
  central :: bool
  peripherals :: "device_id \<rightharpoonup> peripheral"
  connected_ids :: "device_id fset"
  connecting_ids :: "device_id fset"
  name_by_id :: "device_id \<rightharpoonup> string"
  connected :: bool
  scanning :: bool
  last_scan_start :: "time option"
  pending_reconnect :: "(device_id \<times> time) list"
  reconnect_interval :: real
  blocked_ids :: "device_id \<rightharpoonup> time"
  blocked_ttl :: real
  outfile :: "string option"
  outfh :: bool
  name_filters :: "string list"
  id_filters :: "string list"
  preferred_names :: "string list"
  preferred_grace :: real
  max_devices :: "int option"
  scan_all :: bool
  requests :: "request list"
  stderr :: "message list"
  stdout :: "(time \<times> string \<times> int) list"
  written :: "(time \<times> int \<times> string \<times> device_id) list"
  uncaught :: "exn list"

definition init :: delegate where
  "init = \<lparr> central = False, peripherals = Map.empty, connected_ids = {||},
     connecting_ids = {||}, name_by_id = Map.empty, connected = False,
     scanning = False, last_scan_start = None, pending_reconnect = [],
     reconnect_interval = 5, blocked_ids = Map.empty, blocked_ttl = 60,
     outfile = None, outfh = False, name_filters = [], id_filters = [],
     preferred_names = [], preferred_grace = 6, max_devices = None,
     scan_all = False, requests = [], stderr = [], stdout = [], written = [],
     uncaught = [] \<rparr>"

text \<open>
  The three setters \<^verbatim>\<open>main\<close> calls once, before the run loop starts. Creating
  the output directory is left to the file system.
\<close>

definition set_output :: "string option \<Rightarrow> delegate \<Rightarrow> delegate" where
  "set_output path s = s\<lparr>outfile := path\<rparr>"

definition lowered_nonempty :: "string list \<Rightarrow> string list" where
  "lowered_nonempty ns = map lower (filter (\<lambda>n. n \<noteq> []) ns)"

definition set_filters ::
  "string list \<Rightarrow> string list \<Rightarrow> int option \<Rightarrow> bool \<Rightarrow> delegate \<Rightarrow> delegate" where
  "set_filters names ids maxd sa s =
     s\<lparr>name_filters := lowered_nonempty names, id_filters := lowered_nonempty ids,
       max_devices := maxd, scan_all := sa\<rparr>"

definition set_preferred :: "string list \<Rightarrow> real \<Rightarrow> delegate \<Rightarrow> delegate" where
  "set_preferred names grace s =
     s\<lparr>preferred_names := lowered_nonempty names, preferred_grace := grace\<rparr>"

section \<open>The CoreBluetooth delegate: helper methods\<close>

definition write_hr :: "time \<Rightarrow> int \<Rightarrow> string \<Rightarrow> device_id \<Rightarrow> delegate \<Rightarrow> delegate" where
  "write_hr now bpm source dev s =
     (if truthy (outfile s) then
        s\<lparr>outfh := True, written := written s @ [(now, bpm, source, dev)]\<rparr>
      else s)"

definition start_scan :: "time \<Rightarrow> delegate \<Rightarrow> delegate" where
  "start_scan now s =
     (if central s then
        (if scanning s then s
         else s\<lparr>scanning := True,
                requests := requests s @
                  [ScanForPeripherals (if scan_all s then None else Some [HR_SERVICE])],
                last_scan_start := Some now\<rparr>)
      else s)"

definition stop_scan :: "delegate \<Rightarrow> delegate" where
  "stop_scan s =
     (if central s then
        (if scanning s then
           s\<lparr>requests := requests s @ [StopScan], scanning := False,
             last_scan_start := None\<rparr>
         else s)
      else s)"

text \<open>\<^verbatim>\<open>self.name_by_id.get(device_id, device_id)\<close>\<close>

definition label :: "delegate \<Rightarrow> device_id \<Rightarrow> string" where
  "label s device_id = (case name_by_id s device_id of None \<Rightarrow> device_id | Some n \<Rightarrow> n)"

text \<open>\<^verbatim>\<open>device_id in self.pending_reconnect\<close>\<close>

definition is_pending :: "delegate \<Rightarrow> device_id \<Rightarrow> bool" where
  "is_pending s device_id = (map_of (pending_reconnect s) device_id \<noteq> None)"

definition schedule_reconnect :: "time \<Rightarrow> device_id \<Rightarrow> string \<Rightarrow> delegate \<Rightarrow> delegate" where
  "schedule_reconnect now device_id reason s =
     (if is_pending s device_id then s
      else let delay = reconnect_interval s in
        s\<lparr>pending_reconnect := AList.update device_id (now + delay) (pending_reconnect s),
          stderr := stderr s @ [Reconnecting reason delay (label s device_id)]\<rparr>)"

definition reset_reconnect :: "device_id \<Rightarrow> delegate \<Rightarrow> delegate" where
  "reset_reconnect device_id s =
     (if is_pending s device_id
      then s\<lparr>pending_reconnect := AList.delete device_id (pending_reconnect s)\<rparr>
      else s)"

section \<open>The reconnect scheduler\<close>

text \<open>
  The branch of \<^verbatim>\<open>tick\<close> taken while the transport is not powered on: one
  iteration of the loop over \<^verbatim>\<open>list(self.pending_reconnect.keys())\<close>.
\<close>

definition not_ready_entry :: "time \<Rightarrow> device_id \<Rightarrow> delegate \<Rightarrow> delegate" where
  "not_ready_entry now device_id s =
     s\<lparr>pending_reconnect :=
         AList.update device_id (now + reconnect_interval s) (pending_reconnect s),
       stderr := stderr s @ [BluetoothNotReady (reconnect_interval s) (label s device_id)]\<rparr>"

fun not_ready_loop :: "time \<Rightarrow> device_id list \<Rightarrow> delegate \<Rightarrow> delegate" where
  "not_ready_loop now [] s = s"
| "not_ready_loop now (device_id # rest) s =
     not_ready_loop now rest (not_ready_entry now device_id s)"

text \<open>
  One iteration of the loop over \<^verbatim>\<open>list(self.pending_reconnect.items())\<close>. The
  key of the iteration is still in the dictionary when its turn comes (the loop only
  ever touches the entry of the current key, and the keys of a dictionary are
  distinct), so \<^verbatim>\<open>del\<close> cannot raise KeyError here.
\<close>

definition tick_entry :: "time \<Rightarrow> device_id \<times> time \<Rightarrow> delegate \<Rightarrow> delegate" where
  "tick_entry now e s =
     (case e of (device_id, ts) \<Rightarrow>
        if now < ts then s
        else if device_id |\<in>| connected_ids s then
          s\<lparr>pending_reconnect := AList.delete device_id (pending_reconnect s)\<rparr>
        else if device_id |\<in>| connecting_ids s then
          s\<lparr>pending_reconnect :=
              AList.update device_id (now + reconnect_interval s) (pending_reconnect s)\<rparr>
        else
          (case peripherals s device_id of
             Some peripheral \<Rightarrow>
               s\<lparr>connecting_ids := finsert device_id (connecting_ids s),
                 stderr := stderr s @ [ReconnectAttemptConnect (label s device_id)],
                 requests := requests s @ [SetDelegate device_id, ConnectPeripheral device_id],
                 pending_reconnect :=
                   AList.update device_id (now + reconnect_interval s) (pending_reconnect s)\<rparr>
           | None \<Rightarrow>
               let s1 = (if scanning s then stop_scan s else s);
                   s2 = s1\<lparr>stderr := stderr s1 @ [ReconnectAttemptScan]\<rparr>;
                   s3 = start_scan now s2
               in s3\<lparr>pending_reconnect :=
                     AList.update device_id (now + reconnect_interval s3)
                       (pending_reconnect s3)\<rparr>))"

fun tick_loop :: "time \<Rightarrow> (device_id \<times> time) list \<Rightarrow> delegate \<Rightarrow> delegate" where
  "tick_loop now [] s = s"
| "tick_loop now (e # es) s = tick_loop now es (tick_entry now e s)"

text \<open>
  \<^verbatim>\<open>tick\<close>. \<open>powered\<close> is the answer of
  \<^verbatim>\<open>self.central.state() == CBManagerStatePoweredOn\<close>, read from the transport
  when the tick runs.
\<close>

definition tick :: "time \<Rightarrow> bool \<Rightarrow> delegate \<Rightarrow> delegate" where
  "tick now powered s =
     (if pending_reconnect s = [] then s
      else if central s \<and> powered then tick_loop now (pending_reconnect s) s
      else not_ready_loop now (map fst (pending_reconnect s)) s)"

section \<open>Matching, preference, names, capacity and blocking\<close>

text \<open>
  The filter part of \<^verbatim>\<open>_match_device\<close>: the identifier filters, then the name
  filters against the device name and the advertised local name.
\<close>

definition adv_name_lower :: "advertisement option \<Rightarrow> string" where
  "adv_name_lower adv = (case adv of None \<Rightarrow> [] | Some a \<Rightarrow> lower (or_empty (local_name a)))"

definition match_filters :: "peripheral \<Rightarrow> advertisement option \<Rightarrow> delegate \<Rightarrow> bool" where
  "match_filters p adv s =
     (if id_filters s \<noteq> [] \<and>
         \<not> list_ex (\<lambda>want. str_in want (lower (periph_identifier p))) (id_filters s)
      then False
      else if name_filters s \<noteq> [] then
        (let name = lower (or_empty (periph_name p)); adv_name = adv_name_lower adv
         in list_ex (\<lambda>want. str_in want name \<or> str_in want adv_name) (name_filters s))
      else True)"

text \<open>
  \<^verbatim>\<open>_match_device\<close> returns the verdict and, since it deletes a block entry
  whose time has passed, the updated delegate.
\<close>

definition match_device ::
  "time \<Rightarrow> peripheral \<Rightarrow> advertisement option \<Rightarrow> delegate \<Rightarrow> bool \<times> delegate" where
  "match_device now p adv s =
     (let device_id = periph_identifier p in
      case blocked_ids s device_id of
        Some until \<Rightarrow>
          if now < until then (False, s)
          else (let s1 = s\<lparr>blocked_ids := (blocked_ids s)(device_id := None)\<rparr>
                in (match_filters p adv s1, s1))
      | None \<Rightarrow> (match_filters p adv s, s))"

definition is_preferred :: "peripheral \<Rightarrow> advertisement option \<Rightarrow> delegate \<Rightarrow> bool" where
  "is_preferred p adv s =
     (if preferred_names s = [] then False
      else let name = lower (or_empty (periph_name p)); adv_name = adv_name_lower adv
           in list_ex (\<lambda>want. str_in want name \<or> str_in want adv_name) (preferred_names s))"

definition should_defer_non_preferred :: "time \<Rightarrow> delegate \<Rightarrow> bool" where
  "should_defer_non_preferred now s =
     (if preferred_names s = [] then False
      else case last_scan_start s of
             None \<Rightarrow> False
           | Some started \<Rightarrow> now - started < preferred_grace s)"

definition update_name :: "peripheral \<Rightarrow> advertisement option \<Rightarrow> delegate \<Rightarrow> delegate" where
  "update_name p adv s =
     (let device_id = periph_identifier p;
          adv_name = (case adv of None \<Rightarrow> None | Some a \<Rightarrow> local_name a)
      in if truthy adv_name then
           s\<lparr>name_by_id := (name_by_id s)(device_id \<mapsto> or_empty adv_name)\<rparr>
         else let name = periph_name p in
           if truthy name then s\<lparr>name_by_id := (name_by_id s)(device_id \<mapsto> or_empty name)\<rparr>
           else s)"

definition at_capacity :: "delegate \<Rightarrow> bool" where
  "at_capacity s =
     (case max_devices s of
        None \<Rightarrow> False
      | Some m \<Rightarrow>
          (let count = int (fcard (connected_ids s)) + int (fcard (connecting_ids s))
           in count \<ge> m))"

definition block_device :: "time \<Rightarrow> device_id \<Rightarrow> string \<Rightarrow> delegate \<Rightarrow> delegate" where
  "block_device now device_id reason s =
     (let s1 = s\<lparr>blocked_ids := (blocked_ids s)(device_id \<mapsto> now + blocked_ttl s)\<rparr>;
          s2 = (if is_pending s1 device_id
                then s1\<lparr>pending_reconnect := AList.delete device_id (pending_reconnect s1)\<rparr>
                else s1)
      in s2\<lparr>stderr := stderr s2 @ [Ignoring reason (label s2 device_id) (blocked_ttl s2)]\<rparr>)"

section \<open>The transport callbacks\<close>

text \<open>
  \<^verbatim>\<open>_connect_peripheral\<close>. The call \<^verbatim>\<open>self.central.connectPeripheral_options_\<close>
  is not guarded: when \<^verbatim>\<open>self.central\<close> is still unset it raises AttributeError
  after the device has been added to \<^verbatim>\<open>connecting_ids\<close>, and the exception
  leaves the callback.
\<close>

definition connect_peripheral :: "peripheral \<Rightarrow> advertisement option \<Rightarrow> delegate \<Rightarrow> delegate" where
  "connect_peripheral p adv s =
     (let device_id = periph_identifier p in
      if device_id |\<in>| connected_ids s \<or> device_id |\<in>| connecting_ids s then s
      else
        let s1 = s\<lparr>peripherals := (peripherals s)(device_id \<mapsto> p)\<rparr>;
            s2 = update_name p adv s1;
            s3 = s2\<lparr>requests := requests s2 @ [SetDelegate device_id],
                    connecting_ids := finsert device_id (connecting_ids s2)\<rparr>
        in if central s3 then s3\<lparr>requests := requests s3 @ [ConnectPeripheral device_id]\<rparr>
           else s3\<lparr>uncaught := uncaught s3 @ [AttributeError]\<rparr>)"

text \<open>
  The loop of \<^verbatim>\<open>centralManagerDidUpdateState_\<close> over the peripherals the
  transport reports as already connected: \<^verbatim>\<open>break\<close> at capacity,
  \<^verbatim>\<open>continue\<close> on a peripheral that does not match.
\<close>

fun retrieve_loop :: "time \<Rightarrow> peripheral list \<Rightarrow> delegate \<Rightarrow> delegate" where
  "retrieve_loop now [] s = s"
| "retrieve_loop now (p # ps) s =
     (if at_capacity s then s
      else case match_device now p None s of
             (ok, s1) \<Rightarrow>
               if ok then retrieve_loop now ps (connect_peripheral p None s1)
               else retrieve_loop now ps s1)"

text \<open>
  \<^verbatim>\<open>centralManagerDidUpdateState_\<close>: \<open>powered\<close> is the state of the central
  handed over, \<open>retrieved\<close> the answer of
  \<^verbatim>\<open>retrieveConnectedPeripheralsWithServices_\<close> (nil is the empty list).
\<close>

definition did_update_state :: "time \<Rightarrow> bool \<Rightarrow> peripheral list \<Rightarrow> delegate \<Rightarrow> delegate" where
  "did_update_state now powered retrieved s =
     (let s0 = s\<lparr>central := True\<rparr> in
      if powered then start_scan now (retrieve_loop now retrieved s0) else s0)"

definition did_discover ::
  "time \<Rightarrow> peripheral \<Rightarrow> advertisement option \<Rightarrow> delegate \<Rightarrow> delegate" where
  "did_discover now p adv s =
     (let device_id = periph_identifier p;
          s1 = s\<lparr>peripherals := (peripherals s)(device_id \<mapsto> p)\<rparr>;
          s2 = update_name p adv s1
      in case match_device now p adv s2 of
           (ok, s3) \<Rightarrow>
             if ok then
               (let preferred = is_preferred p adv s3 in
                if \<not> preferred \<and> should_defer_non_preferred now s3 then s3
                else if at_capacity s3 then s3
                else connect_peripheral p adv s3)
             else s3)"

definition did_connect :: "peripheral \<Rightarrow> delegate \<Rightarrow> delegate" where
  "did_connect p s =
     (let device_id = periph_identifier p;
          s1 = s\<lparr>connected := True,
                 connected_ids := finsert device_id (connected_ids s),
                 connecting_ids := connecting_ids s |-| {|device_id|}\<rparr>;
          s2 = reset_reconnect device_id s1
      in s2\<lparr>requests := requests s2 @ [DiscoverServices device_id [HR_SERVICE]]\<rparr>)"

definition did_fail_to_connect :: "time \<Rightarrow> peripheral \<Rightarrow> delegate \<Rightarrow> delegate" where
  "did_fail_to_connect now p s =
     (let device_id = periph_identifier p;
          s1 = s\<lparr>connected := False,
                 connecting_ids := connecting_ids s |-| {|device_id|},
                 stderr := stderr s @ [FailedToConnect]\<rparr>
      in schedule_reconnect now device_id ''Connect failed.'' s1)"

definition did_disconnect :: "time \<Rightarrow> peripheral \<Rightarrow> delegate \<Rightarrow> delegate" where
  "did_disconnect now p s =
     (let device_id = periph_identifier p;
          s1 = s\<lparr>connected := False,
                 connected_ids := connected_ids s |-| {|device_id|},
                 stderr := stderr s @ [DisconnectedMsg]\<rparr>
      in case blocked_ids s1 device_id of
           Some until \<Rightarrow>
             if now < until then s1
             else schedule_reconnect now device_id ''Disconnected.'' s1
         | None \<Rightarrow> schedule_reconnect now device_id ''Disconnected.'' s1)"

text \<open>
  \<^verbatim>\<open>cancelPeripheralConnection_\<close> is called inside \<^verbatim>\<open>try/except\<close>: with
  \<^verbatim>\<open>self.central\<close> unset the AttributeError is swallowed and nothing is
  requested.
\<close>

definition cancel_connection :: "device_id \<Rightarrow> delegate \<Rightarrow> delegate" where
  "cancel_connection device_id s =
     (if central s then s\<lparr>requests := requests s @ [CancelPeripheralConnection device_id]\<rparr>
      else s)"

definition did_discover_services :: "time \<Rightarrow> peripheral \<Rightarrow> bool \<Rightarrow> delegate \<Rightarrow> delegate" where
  "did_discover_services now p error s =
     (let device_id = periph_identifier p in
      if error then schedule_reconnect now device_id ''Service discovery failed.'' s
      else
        let hr = filter (\<lambda>sv. service_uuid sv = HR_SERVICE)
                   (case periph_services p of None \<Rightarrow> [] | Some svs \<Rightarrow> svs);
            s1 = s\<lparr>requests := requests s @
                     map (\<lambda>sv. DiscoverCharacteristics device_id [HR_MEAS] (service_uuid sv)) hr\<rparr>
        in if hr = [] then
             cancel_connection device_id (block_device now device_id ''No Heart Rate service.'' s1)
           else s1)"

definition did_discover_characteristics ::
  "time \<Rightarrow> peripheral \<Rightarrow> service \<Rightarrow> bool \<Rightarrow> delegate \<Rightarrow> delegate" where
  "did_discover_characteristics now p sv error s =
     (let device_id = periph_identifier p in
      if error then schedule_reconnect now device_id ''Characteristic discovery failed.'' s
      else
        let hr = filter (\<lambda>c. c = HR_MEAS)
                   (case service_characteristics sv of None \<Rightarrow> [] | Some cs \<Rightarrow> cs);
            s1 = s\<lparr>requests := requests s @ map (\<lambda>c. SetNotifyValue device_id True c) hr\<rparr>
        in if hr = [] then
             cancel_connection device_id
               (block_device now device_id ''No Heart Rate characteristic.'' s1)
           else s1)"

text \<open>
  \<^verbatim>\<open>peripheral_didUpdateValueForCharacteristic_error_\<close>: \<open>val\<close> is
  \<^verbatim>\<open>characteristic.value()\<close> (may be nil).
\<close>

definition did_update_value ::
  "time \<Rightarrow> peripheral \<Rightarrow> byte list option \<Rightarrow> bool \<Rightarrow> delegate \<Rightarrow> delegate" where
  "did_update_value now p val error s =
     (if error then s
      else case val of
        None \<Rightarrow> s
      | Some data \<Rightarrow>
          (case parse_hr_measurement data of
             None \<Rightarrow> s
           | Some hr \<Rightarrow>
               let device_id = periph_identifier p;
                   s1 = update_name p None s;
                   lbl = label s1 device_id;
                   s2 = s1\<lparr>stdout := stdout s1 @ [(now, lbl, hr)]\<rparr>
               in write_hr now hr lbl device_id s2))"

section \<open>Runs of the delegate\<close>

text \<open>
  The inputs of the delegate: the timer tick of \<^verbatim>\<open>main\<close> and the callbacks of
  the transport, each with the clock reading at which it runs.
\<close>

datatype event =
    Tick time bool
  | DidUpdateState time bool "peripheral list"
  | DidDiscover time peripheral "advertisement option"
  | DidConnect time peripheral
  | DidFailToConnect time peripheral
  | DidDisconnect time peripheral
  | DidDiscoverServices time peripheral bool
  | DidDiscoverCharacteristics time peripheral service bool
  | DidUpdateValue time peripheral "byte list option" bool

fun step :: "event \<Rightarrow> delegate \<Rightarrow> delegate" where
  "step (Tick now powered) s = tick now powered s"
| "step (DidUpdateState now powered retrieved) s = did_update_state now powered retrieved s"
| "step (DidDiscover now p adv) s = did_discover now p adv s"
| "step (DidConnect now p) s = did_connect p s"
| "step (DidFailToConnect now p) s = did_fail_to_connect now p s"
| "step (DidDisconnect now p) s = did_disconnect now p s"
| "step (DidDiscoverServices now p error) s = did_discover_services now p error s"
| "step (DidDiscoverCharacteristics now p sv error) s =
     did_discover_characteristics now p sv error s"
| "step (DidUpdateValue now p val error) s = did_update_value now p val error s"

fun run :: "event list \<Rightarrow> delegate \<Rightarrow> delegate" where
  "run [] s = s"
| "run (e # es) s = run es (step e s)"

text \<open>The delegate as \<^verbatim>\<open>main\<close> sets it up from the command line.\<close>

definition configure ::
  "string option \<Rightarrow> string list \<Rightarrow> string list \<Rightarrow> int option \<Rightarrow> bool \<Rightarrow> string list \<Rightarrow> real
     \<Rightarrow> delegate" where
  "configure path names ids maxd sa preferred grace =
     set_preferred preferred grace (set_filters names ids maxd sa (set_output path init))"

text \<open>
  The scan window of the delegate is the pair of \<^verbatim>\<open>scanning\<close> and
  \<^verbatim>\<open>last_scan_start\<close>; it is consistent when a start time is recorded exactly
  while a scan is active.
\<close>

definition scan_window_consistent :: "delegate \<Rightarrow> bool" where
  "scan_window_consistent s = (scanning s = (last_scan_start s \<noteq> None))"

section \<open>The capacity bound\<close>

text \<open>
  The bound of the capacity limiter as a property of a state, the events that are
  ticks, and the condition that a connect success is reported only for a device the
  delegate holds as connecting or connected.
\<close>

definition within_capacity :: "delegate \<Rightarrow> bool" where
  "within_capacity s =
     (case max_devices s of
        None \<Rightarrow> True
      | Some m \<Rightarrow> int (fcard (connected_ids s)) + int (fcard (connecting_ids s)) \<le> m)"

fun is_tick :: "event \<Rightarrow> bool" where
  "is_tick (Tick now powered) = True"
| "is_tick e = False"

fun connect_announced :: "event \<Rightarrow> delegate \<Rightarrow> bool" where
  "connect_announced (DidConnect now p) s =
     (periph_identifier p |\<in>| connecting_ids s \<or> periph_identifier p |\<in>| connected_ids s)"
| "connect_announced e s = True"

section \<open>Example runs\<close>



text \<open>
  Two chest straps, and the delegate started with \<^verbatim>\<open>--max-devices 1\<close>. In the run
  \<open>capacity_prefix\<close> strap A is discovered, connects and drops off at time 10 (its
  reconnect is scheduled for time 15), then strap B is discovered and its connection
  is in flight. \<open>cap1\<close> to \<open>cap6\<close> are the states after each event of
  \<open>capacity_trace\<close>, which ends with the tick at time 15.
\<close>

definition strap_a :: peripheral where
  "strap_a = Peripheral ''A'' (Some ''Strap A'') None"

definition strap_b :: peripheral where
  "strap_b = Peripheral ''B'' (Some ''Strap B'') None"

definition one_device_config :: delegate where
  "one_device_config = configure None [] [] (Some 1) False [] 6"

definition capacity_prefix :: "event list" where
  "capacity_prefix =
     [DidUpdateState 0 True [], DidDiscover 1 strap_a None, DidConnect 2 strap_a,
      DidDisconnect 10 strap_a, DidDiscover 11 strap_b None]"

definition capacity_trace :: "event list" where
  "capacity_trace = capacity_prefix @ [Tick 15 True]"

definition cap1 :: delegate where
  "cap1 = init\<lparr>max_devices := Some 1, central := True, scanning := True,
     last_scan_start := Some 0, requests := [ScanForPeripherals (Some [HR_SERVICE])]\<rparr>"

definition cap2 :: delegate where
  "cap2 = cap1\<lparr>peripherals := [''A'' \<mapsto> strap_a], name_by_id := [''A'' \<mapsto> ''Strap A''],
     connecting_ids := {|''A''|},
     requests := [ScanForPeripherals (Some [HR_SERVICE]), SetDelegate ''A'',
       ConnectPeripheral ''A'']\<rparr>"

definition cap3 :: delegate where
  "cap3 = cap2\<lparr>connected := True, connected_ids := {|''A''|}, connecting_ids := {||},
     requests := [ScanForPeripherals (Some [HR_SERVICE]), SetDelegate ''A'',
       ConnectPeripheral ''A'', DiscoverServices ''A'' [HR_SERVICE]]\<rparr>"

definition cap4 :: delegate where
  "cap4 = cap3\<lparr>connected := False, connected_ids := {||},
     pending_reconnect := [(''A'', 15)],
     stderr := [DisconnectedMsg, Reconnecting ''Disconnected.'' 5 ''Strap A'']\<rparr>"

definition cap5 :: delegate where
  "cap5 = cap4\<lparr>peripherals := [''A'' \<mapsto> strap_a, ''B'' \<mapsto> strap_b],
     name_by_id := [''A'' \<mapsto> ''Strap A'', ''B'' \<mapsto> ''Strap B''],
     connecting_ids := {|''B''|},
     requests := [ScanForPeripherals (Some [HR_SERVICE]), SetDelegate ''A'',
       ConnectPeripheral ''A'', DiscoverServices ''A'' [HR_SERVICE], SetDelegate ''B'',
       ConnectPeripheral ''B'']\<rparr>"

definition cap6 :: delegate where
  "cap6 = cap5\<lparr>connecting_ids := {|''A'', ''B''|},
     pending_reconnect := [(''A'', 20)],
     stderr := [DisconnectedMsg, Reconnecting ''Disconnected.'' 5 ''Strap A'',
       ReconnectAttemptConnect ''Strap A''],
     requests := [ScanForPeripherals (Some [HR_SERVICE]), SetDelegate ''A'',
       ConnectPeripheral ''A'', DiscoverServices ''A'' [HR_SERVICE], SetDelegate ''B'',
       ConnectPeripheral ''B'', SetDelegate ''A'', ConnectPeripheral ''A'']\<rparr>"

text \<open>
  A strap that exposes two instances of the Heart Rate service, neither with the
  Heart Rate Measurement characteristic. In \<open>block_prefix\<close> the first
  characteristic-discovery callback blocks the device at time 4 (until time 64) and
  the second one, at time 5, reports an error. \<open>block_trace\<close> goes on with the
  disconnect the block asked for and the tick at time 10. \<open>blk1\<close> to \<open>blk8\<close> are
  the states after each event.
\<close>

definition strap_two_services :: peripheral where
  "strap_two_services =
     Peripheral ''A'' (Some ''Strap A'') (Some [Service ''180D'' None, Service ''180D'' None])"

definition default_config :: delegate where
  "default_config = configure None [] [] None False [] 6"

definition block_prefix :: "event list" where
  "block_prefix =
     [DidUpdateState 0 True [], DidDiscover 1 strap_a None, DidConnect 2 strap_a,
      DidDiscoverServices 3 strap_two_services False,
      DidDiscoverCharacteristics 4 strap_two_services (Service ''180D'' (Some [''2A38''])) False,
      DidDiscoverCharacteristics 5 strap_two_services (Service ''180D'' None) True]"

definition block_trace :: "event list" where
  "block_trace = block_prefix @ [DidDisconnect 6 strap_two_services, Tick 10 True]"

definition blk1 :: delegate where
  "blk1 = init\<lparr>central := True, scanning := True, last_scan_start := Some 0,
     requests := [ScanForPeripherals (Some [HR_SERVICE])]\<rparr>"

definition blk2 :: delegate where
  "blk2 = blk1\<lparr>peripherals := [''A'' \<mapsto> strap_a], name_by_id := [''A'' \<mapsto> ''Strap A''],
     connecting_ids := {|''A''|},
     requests := [ScanForPeripherals (Some [HR_SERVICE]), SetDelegate ''A'',
       ConnectPeripheral ''A'']\<rparr>"

definition blk3 :: delegate where
  "blk3 = blk2\<lparr>connected := True, connected_ids := {|''A''|}, connecting_ids := {||},
     requests := [ScanForPeripherals (Some [HR_SERVICE]), SetDelegate ''A'',
       ConnectPeripheral ''A'', DiscoverServices ''A'' [HR_SERVICE]]\<rparr>"

definition blk4 :: delegate where
  "blk4 = blk3\<lparr>requests := [ScanForPeripherals (Some [HR_SERVICE]), SetDelegate ''A'',
       ConnectPeripheral ''A'', DiscoverServices ''A'' [HR_SERVICE],
       DiscoverCharacteristics ''A'' [HR_MEAS] ''180D'',
       DiscoverCharacteristics ''A'' [HR_MEAS] ''180D'']\<rparr>"

definition blk5 :: delegate where
  "blk5 = blk4\<lparr>blocked_ids := [''A'' \<mapsto> 64],
     stderr := [Ignoring ''No Heart Rate characteristic.'' ''Strap A'' 60],
     requests := [ScanForPeripherals (Some [HR_SERVICE]), SetDelegate ''A'',
       ConnectPeripheral ''A'', DiscoverServices ''A'' [HR_SERVICE],
       DiscoverCharacteristics ''A'' [HR_MEAS] ''180D'',
       DiscoverCharacteristics ''A'' [HR_MEAS] ''180D'', CancelPeripheralConnection ''A'']\<rparr>"

definition blk6 :: delegate where
  "blk6 = blk5\<lparr>pending_reconnect := [(''A'', 10)],
     stderr := [Ignoring ''No Heart Rate characteristic.'' ''Strap A'' 60,
       Reconnecting ''Characteristic discovery failed.'' 5 ''Strap A'']\<rparr>"

definition blk7 :: delegate where
  "blk7 = blk6\<lparr>connected := False, connected_ids := {||},
     stderr := [Ignoring ''No Heart Rate characteristic.'' ''Strap A'' 60,
       Reconnecting ''Characteristic discovery failed.'' 5 ''Strap A'', DisconnectedMsg]\<rparr>"

definition blk8 :: delegate where
  "blk8 = blk7\<lparr>connecting_ids := {|''A''|}, pending_reconnect := [(''A'', 15)],
     stderr := [Ignoring ''No Heart Rate characteristic.'' ''Strap A'' 60,
       Reconnecting ''Characteristic discovery failed.'' 5 ''Strap A'', DisconnectedMsg,
       ReconnectAttemptConnect ''Strap A''],
     requests := [ScanForPeripherals (Some [HR_SERVICE]), SetDelegate ''A'',
       ConnectPeripheral ''A'', DiscoverServices ''A'' [HR_SERVICE],
       DiscoverCharacteristics ''A'' [HR_MEAS] ''180D'',
       DiscoverCharacteristics ''A'' [HR_MEAS] ''180D'', CancelPeripheralConnection ''A'',
       SetDelegate ''A'', ConnectPeripheral ''A'']\<rparr>"

text \<open>
  A strap whose advertised local name is longer than the name the peripheral object
  reports.
\<close>

definition polar :: peripheral where
  "polar = Peripheral ''A'' (Some ''Polar'') None"

definition polar_adv :: "advertisement option" where
  "polar_adv = Some (Advertisement (Some ''Polar H10 0A1B''))"

section \<open>The reconnect tick, entry by entry\<close>

text \<open>
  What section 4.7 of the specification says of one pending entry, read off the
  delegate as it is when the tick starts: what becomes of the entry (\<open>rearmed\<close>:
  kept while not due, dropped when the device is connected, otherwise re-armed to
  \<open>now\<close> plus the backoff), whether a connect request is due for it
  (\<open>wants_connect\<close>: due, neither connected nor connecting, handle cached),
  whether the scanner is restarted for it (\<open>wants_scan\<close>: the same without a cached
  handle), and the transport calls all this amounts to, in the order of the entries
  (\<open>tick_requests\<close>, where \<open>sc\<close> says whether a scan is active).
\<close>

definition rearmed :: "time \<Rightarrow> delegate \<Rightarrow> device_id \<times> time \<Rightarrow> (device_id \<times> time) list" where
  "rearmed now s e =
     (case e of (device_id, ts) \<Rightarrow>
        if now < ts then [(device_id, ts)]
        else if device_id |\<in>| connected_ids s then []
        else [(device_id, now + reconnect_interval s)])"

definition wants_connect :: "time \<Rightarrow> delegate \<Rightarrow> device_id \<times> time \<Rightarrow> bool" where
  "wants_connect now s e =
     (case e of (device_id, ts) \<Rightarrow>
        \<not> now < ts \<and> device_id |\<notin>| connected_ids s \<and> device_id |\<notin>| connecting_ids s
        \<and> peripherals s device_id \<noteq> None)"

definition wants_scan :: "time \<Rightarrow> delegate \<Rightarrow> device_id \<times> time \<Rightarrow> bool" where
  "wants_scan now s e =
     (case e of (device_id, ts) \<Rightarrow>
        \<not> now < ts \<and> device_id |\<notin>| connected_ids s \<and> device_id |\<notin>| connecting_ids s
        \<and> peripherals s device_id = None)"

definition scan_request :: "delegate \<Rightarrow> request" where
  "scan_request s = ScanForPeripherals (if scan_all s then None else Some [HR_SERVICE])"

fun tick_requests :: "time \<Rightarrow> delegate \<Rightarrow> bool \<Rightarrow> (device_id \<times> time) list \<Rightarrow> request list" where
  "tick_requests now s sc [] = []"
| "tick_requests now s sc (e # es) =
     (if wants_connect now s e
      then [SetDelegate (fst e), ConnectPeripheral (fst e)] @ tick_requests now s sc es
      else if wants_scan now s e
      then (if sc then [StopScan] else []) @ [scan_request s] @ tick_requests now s True es
      else tick_requests now s sc es)"

text \<open>
  A delegate whose radio is off, with one reconnect pending for time 15; and a
  delegate with the radio on and five pending entries: A is connected, B is
  connecting, C has a cached handle, D has none, E is not due before time 50.
\<close>

definition unpowered_pending :: delegate where
  "unpowered_pending = run [DidUpdateState 0 False [], DidDisconnect 10 strap_a] default_config"

definition tick_example :: delegate where
  "tick_example =
     init\<lparr>central := True, scanning := True, last_scan_start := Some 0,
       connected_ids := {|''A''|}, connecting_ids := {|''B''|},
       peripherals := [''C'' \<mapsto> Peripheral ''C'' None None],
       pending_reconnect := [(''A'', 5), (''B'', 5), (''C'', 5), (''D'', 5), (''E'', 50)]\<rparr>"

section \<open>Properties of the decoder\<close>

lemma flag_bit0: "((w :: byte) AND 1 \<noteq> 0) = bit w 0"
  by (simp add: and_one_eq bit_0 mod_2_eq_odd)

lemma slice_1_3:
  assumes "3 \<le> length data"
  shows "slice data 1 3 = [data ! 1, data ! 2]"
proof -
  from assms obtain a b c rest where "data = a # b # c # rest"
    by (cases data; cases "tl data"; cases "tl (tl data)") auto
  then show ?thesis by (simp add: slice_def)
qed

lemma parse_hr_measurement_spec: "parse_hr_measurement data = decode_bpm_spec data"
proof (cases "length data < 3")
  case True
  then show ?thesis
    by (auto simp: parse_hr_measurement_def decode_bpm_spec_def Let_def flag_bit0)
next
  case False
  then have "slice data 1 3 = [data ! 1, data ! 2]"
    using slice_1_3 [of data] by simp
  with False show ?thesis
    by (auto simp: parse_hr_measurement_def decode_bpm_spec_def Let_def flag_bit0)
qed

lemma parse_hr_measurement_gatt_eq: "parse_hr_measurement_gatt data = parse_hr_measurement data"
  by (simp add: parse_hr_measurement_gatt_def parse_hr_measurement_def Let_def)

lemma parse_hr_measurement_probe_eq: "parse_hr_measurement_probe data = parse_hr_measurement data"
  by (simp add: parse_hr_measurement_probe_def parse_hr_measurement_def)

text \<open>
  Claim C4. For every byte sequence, each of the three decoders returns no value when
  the payload is shorter than two octets; otherwise, when bit 0 of octet 0 is set, the
  16-bit little-endian unsigned integer at octets 1 and 2 (no value when the payload is
  shorter than three octets), and when the bit is clear the unsigned value of octet 1.
  The three functions are therefore the same function.
\<close>

theorem C4_decoders_agree_with_contract:
  "parse_hr_measurement data =
     (if length data < 2 then None
      else if bit (data ! 0) 0 then
        (if length data < 3 then None
         else Some (uint (data ! 1) + 256 * uint (data ! 2)))
      else Some (uint (data ! 1)))
   \<and> parse_hr_measurement_gatt data = parse_hr_measurement data
   \<and> parse_hr_measurement_probe data = parse_hr_measurement data
   \<and> parse_hr_measurement_gatt = parse_hr_measurement
   \<and> parse_hr_measurement_probe = parse_hr_measurement"
proof -
  have "parse_hr_measurement_gatt = parse_hr_measurement"
    by (rule ext) (rule parse_hr_measurement_gatt_eq)
  moreover have "parse_hr_measurement_probe = parse_hr_measurement"
    by (rule ext) (rule parse_hr_measurement_probe_eq)
  ultimately show ?thesis
    using parse_hr_measurement_spec [of data]
    by (simp add: decode_bpm_spec_def)
qed

theorem C4_decoders_agree_with_contract_witness:
  "parse_hr_measurement [] = None
   \<and> parse_hr_measurement [0, 72] = Some 72
   \<and> parse_hr_measurement [1, 72, 0] = Some 72
   \<and> parse_hr_measurement [1, 1] = None
   \<and> parse_hr_measurement_gatt [1, 44, 1] = Some 300
   \<and> parse_hr_measurement_probe [1, 44, 1] = Some 300"
  using C4_decoders_agree_with_contract [of "[]"] C4_decoders_agree_with_contract [of "[0, 72]"]
    C4_decoders_agree_with_contract [of "[1, 72, 0]"]
    C4_decoders_agree_with_contract [of "[1, 1]"]
    C4_decoders_agree_with_contract [of "[1, 44, 1]"]
  by simp

section \<open>Properties of the scan controller\<close>

text \<open>
  Claim C9. Starting a scan while a scan is already active is a no-op: the delegate
  is unchanged, so no second start request reaches the transport and the scan-start
  timestamp stays as it was. Stopping a scan while no scan is active is a no-op as
  well. Neither records an exception.
\<close>

theorem C9_scan_start_stop_noop:
  "(scanning s \<longrightarrow>
      start_scan now s = s
      \<and> requests (start_scan now s) = requests s
      \<and> last_scan_start (start_scan now s) = last_scan_start s
      \<and> uncaught (start_scan now s) = uncaught s)
   \<and> (\<not> scanning s \<longrightarrow>
      stop_scan s = s
      \<and> requests (stop_scan s) = requests s
      \<and> uncaught (stop_scan s) = uncaught s)"
  by (simp add: start_scan_def stop_scan_def)

theorem C9_scan_start_stop_noop_witness:
  "scanning (did_update_state 0 True [] init)
   \<and> start_scan 5 (did_update_state 0 True [] init) = did_update_state 0 True [] init
   \<and> last_scan_start (start_scan 5 (did_update_state 0 True [] init)) = Some 0
   \<and> requests (start_scan 5 (did_update_state 0 True [] init))
       = [ScanForPeripherals (Some [HR_SERVICE])]
   \<and> \<not> scanning init \<and> stop_scan init = init"
  using C9_scan_start_stop_noop [of "did_update_state 0 True [] init" 5]
    C9_scan_start_stop_noop [of init 5]
  by (simp add: did_update_state_def start_scan_def init_def)

section \<open>Properties of reconnect scheduling\<close>

lemma is_pending_schedule_reconnect:
  "is_pending (schedule_reconnect now device_id reason s) device_id"
  by (simp add: schedule_reconnect_def is_pending_def Let_def update_conv')

text \<open>
  Claim C10. Scheduling a reconnect for a device that already has a pending-reconnect
  entry changes nothing: the delegate, and with it the pending-reconnect dictionary
  and the earlier time of the next attempt, stays as it was. Hence a second
  scheduling for the same device, at whatever later time and for whatever reason,
  leaves the entry made by the first.
\<close>

theorem C10_schedule_reconnect_idempotent:
  "(is_pending s device_id \<longrightarrow>
      schedule_reconnect now device_id reason s = s
      \<and> pending_reconnect (schedule_reconnect now device_id reason s) = pending_reconnect s)
   \<and> pending_reconnect
        (schedule_reconnect now' device_id reason' (schedule_reconnect now device_id reason s))
      = pending_reconnect (schedule_reconnect now device_id reason s)"
  using is_pending_schedule_reconnect [of now device_id reason s]
  by (simp add: schedule_reconnect_def)

theorem C10_schedule_reconnect_idempotent_witness:
  "is_pending (schedule_reconnect 0 ''A'' ''Disconnected.'' init) ''A''
   \<and> schedule_reconnect 3 ''A'' ''Connect failed.''
        (schedule_reconnect 0 ''A'' ''Disconnected.'' init)
      = schedule_reconnect 0 ''A'' ''Disconnected.'' init
   \<and> pending_reconnect
        (schedule_reconnect 3 ''A'' ''Connect failed.''
           (schedule_reconnect 0 ''A'' ''Disconnected.'' init)) = [(''A'', 5)]"
  using C10_schedule_reconnect_idempotent
    [of "schedule_reconnect 0 ''A'' ''Disconnected.'' init" "''A''" 3 "''Connect failed.''"]
  by (simp add: schedule_reconnect_def is_pending_def init_def)

section \<open>Properties of the notification callback\<close>

text \<open>
  Claim C8. A notification whose payload does not decode (in particular one shorter
  than two octets) leaves the delegate exactly as it was: no record is written,
  nothing is printed, and the connected set, the connecting set, the
  pending-reconnect dictionary and the block dictionary are unchanged.
\<close>

theorem C8_decode_failure_changes_nothing:
  "(parse_hr_measurement data = None \<longrightarrow>
      did_update_value now p (Some data) error s = s
      \<and> written (did_update_value now p (Some data) error s) = written s
      \<and> connected_ids (did_update_value now p (Some data) error s) = connected_ids s
      \<and> connecting_ids (did_update_value now p (Some data) error s) = connecting_ids s
      \<and> pending_reconnect (did_update_value now p (Some data) error s) = pending_reconnect s
      \<and> blocked_ids (did_update_value now p (Some data) error s) = blocked_ids s)
   \<and> (length data < 2 \<longrightarrow> did_update_value now p (Some data) error s = s)"
  by (simp add: did_update_value_def parse_hr_measurement_def)

theorem C8_decode_failure_changes_nothing_witness:
  "parse_hr_measurement [1, 1] = None
   \<and> did_update_value 9 (Peripheral ''A'' (Some ''Strap'') None) (Some [1, 1]) False
        (set_output (Some ''out/hr.jsonl'') init)
      = set_output (Some ''out/hr.jsonl'') init
   \<and> written
        (did_update_value 9 (Peripheral ''A'' (Some ''Strap'') None) (Some [1, 1]) False
           (set_output (Some ''out/hr.jsonl'') init)) = []"
  using C8_decode_failure_changes_nothing
    [of "[1, 1]" 9 "Peripheral ''A'' (Some ''Strap'') None" False
        "set_output (Some ''out/hr.jsonl'') init"]
  by (simp add: parse_hr_measurement_def set_output_def init_def)

section \<open>The scan window stays consistent\<close>


lemma swc_stop_scan: "scan_window_consistent s \<Longrightarrow> scan_window_consistent (stop_scan s)"
  by (simp add: scan_window_consistent_def stop_scan_def)

lemma swc_fields:
  "scanning s' = scanning s \<Longrightarrow> last_scan_start s' = last_scan_start s \<Longrightarrow>
   scan_window_consistent s \<Longrightarrow> scan_window_consistent s'"
  by (simp add: scan_window_consistent_def)









lemma swc_schedule_reconnect: "scan_window_consistent s \<Longrightarrow> scan_window_consistent (schedule_reconnect now d r s)"
  by (simp add: scan_window_consistent_def schedule_reconnect_def Let_def)

lemma swc_block_device: "scan_window_consistent s \<Longrightarrow> scan_window_consistent (block_device now d r s)"
  by (simp add: scan_window_consistent_def block_device_def Let_def)

lemma swc_cancel: "scan_window_consistent s \<Longrightarrow> scan_window_consistent (cancel_connection d s)"
  by (simp add: scan_window_consistent_def cancel_connection_def Let_def)












section \<open>Properties of the preferred-source arbiter\<close>

lemma update_name_only_names:
  "update_name p adv s = s\<lparr>name_by_id := name_by_id (update_name p adv s)\<rparr>"
  by (simp add: update_name_def Let_def)

lemma match_device_only_blocked:
  "snd (match_device now p adv s) = s\<lparr>blocked_ids := blocked_ids (snd (match_device now p adv s))\<rparr>"
  by (simp add: match_device_def Let_def split: option.splits)






lemma lowered_nonempty_Nil: "lowered_nonempty [] = []"
  by (simp add: lowered_nonempty_def)









section \<open>The capacity limiter and the reconnect tick\<close>

lemma one_device_config_eq: "one_device_config = init\<lparr>max_devices := Some 1\<rparr>"
  by (simp add: one_device_config_def configure_def set_preferred_def set_filters_def
      set_output_def init_def lowered_nonempty_Nil)

lemmas cap_defs = cap1_def cap2_def cap3_def cap4_def cap5_def cap6_def strap_a_def strap_b_def
  init_def

lemma cap_step1: "step (DidUpdateState 0 True []) one_device_config = cap1"
  by (simp add: one_device_config_eq cap_defs did_update_state_def start_scan_def)

lemma cap_step2: "step (DidDiscover 1 strap_a None) cap1 = cap2"
  by (simp add: cap_defs did_discover_def update_name_def match_device_def match_filters_def
      is_preferred_def should_defer_non_preferred_def at_capacity_def connect_peripheral_def
      Let_def fcard_fempty fcard_finsert_if)

lemma cap_step3: "step (DidConnect 2 strap_a) cap2 = cap3"
  by (simp add: cap_defs did_connect_def reset_reconnect_def is_pending_def Let_def)

lemma cap_step4: "step (DidDisconnect 10 strap_a) cap3 = cap4"
  by (simp add: cap_defs did_disconnect_def schedule_reconnect_def is_pending_def label_def
      Let_def)

lemma cap_step5: "step (DidDiscover 11 strap_b None) cap4 = cap5"
  by (simp add: cap_defs did_discover_def update_name_def match_device_def match_filters_def
      is_preferred_def should_defer_non_preferred_def at_capacity_def connect_peripheral_def
      Let_def fcard_fempty fcard_finsert_if)

lemma cap_step6: "tick 15 True cap5 = cap6"
  by (simp add: cap_defs tick_def tick_entry_def label_def Let_def)

lemma run_capacity_prefix: "run capacity_prefix one_device_config = cap5"
  using cap_step1 cap_step2 cap_step3 cap_step4 cap_step5
  by (simp add: capacity_prefix_def)

lemma run_capacity_trace: "run capacity_trace one_device_config = cap6"
  using cap_step1 cap_step2 cap_step3 cap_step4 cap_step5 cap_step6
  by (simp add: capacity_trace_def capacity_prefix_def)

text \<open>
  Claim C1 says that with \<^verbatim>\<open>max_devices\<close> set, the connected and the connecting
  set together never hold more than \<^verbatim>\<open>max_devices\<close> devices after a transition.
  The code breaks this on the reconnect tick, which adds a due device to the connecting
  set without asking \<^verbatim>\<open>_at_capacity\<close>: after \<open>capacity_trace\<close>, with
  \<^verbatim>\<open>max_devices = 1\<close>, no device is connected and two are connecting.
\<close>

theorem C1_tick_exceeds_max_devices:
  "max_devices (run capacity_trace one_device_config) = Some 1
   \<and> connected_ids (run capacity_trace one_device_config) = {||}
   \<and> connecting_ids (run capacity_trace one_device_config) = {|''A'', ''B''|}
   \<and> fcard (connected_ids (run capacity_trace one_device_config))
       + fcard (connecting_ids (run capacity_trace one_device_config)) = 2"
  by (simp add: run_capacity_trace cap_defs fcard_fempty fcard_finsert_if)

text \<open>
  Claim C2 says that every path that issues a connect request asks the capacity
  check first and issues nothing at capacity. The discovery path and the path over
  the already connected peripherals do; the reconnect tick does not: in the state
  after \<open>capacity_prefix\<close> the delegate is at capacity (strap B is connecting, the
  limit is 1), and the tick at time 15 issues a connect request for strap A.
\<close>

theorem C2_tick_connects_at_capacity:
  "at_capacity (run capacity_prefix one_device_config)
   \<and> requests (tick 15 True (run capacity_prefix one_device_config))
       = requests (run capacity_prefix one_device_config)
           @ [SetDelegate ''A'', ConnectPeripheral ''A'']
   \<and> connecting_ids (tick 15 True (run capacity_prefix one_device_config))
       = finsert ''A'' (connecting_ids (run capacity_prefix one_device_config))"
  by (simp add: run_capacity_prefix cap_step6)
    (simp add: cap_defs at_capacity_def fcard_fempty fcard_finsert_if)

text \<open>
  What holds of the two paths that do ask: at capacity the discovery callback issues
  no request and leaves both sets alone, and so does the loop over the already
  connected peripherals; an in-flight connection is never cancelled there.
\<close>

lemma at_capacity_cong:
  "max_devices s' = max_devices s \<Longrightarrow> connected_ids s' = connected_ids s \<Longrightarrow>
   connecting_ids s' = connecting_ids s \<Longrightarrow> at_capacity s' = at_capacity s"
  by (simp add: at_capacity_def Let_def split: option.splits)

lemma did_discover_at_capacity:
  assumes "at_capacity s"
  shows "requests (did_discover now p adv s) = requests s
     \<and> connecting_ids (did_discover now p adv s) = connecting_ids s
     \<and> connected_ids (did_discover now p adv s) = connected_ids s"
proof -
  let ?s1 = "s\<lparr>peripherals := (peripherals s)(periph_identifier p \<mapsto> p)\<rparr>"
  let ?s2 = "update_name p adv ?s1"
  let ?s3 = "snd (match_device now p adv ?s2)"
  have e2: "?s2 = ?s1\<lparr>name_by_id := name_by_id ?s2\<rparr>"
    by (rule update_name_only_names)
  have e3: "?s3 = ?s2\<lparr>blocked_ids := blocked_ids ?s3\<rparr>"
    by (rule match_device_only_blocked)
  have m: "max_devices ?s3 = max_devices s" by (subst e3, subst e2) simp
  have c: "connected_ids ?s3 = connected_ids s" by (subst e3, subst e2) simp
  have g: "connecting_ids ?s3 = connecting_ids s" by (subst e3, subst e2) simp
  have r: "requests ?s3 = requests s" by (subst e3, subst e2) simp
  have "at_capacity ?s3"
    using assms at_capacity_cong [OF m c g] by simp
  then have "did_discover now p adv s = ?s3"
    by (simp add: did_discover_def Let_def split_beta)
  with c g r show ?thesis by simp
qed

lemma retrieve_loop_at_capacity: "at_capacity s \<Longrightarrow> retrieve_loop now ps s = s"
  by (cases ps) simp_all

text \<open>
  Every transition but the tick keeps the bound, given that the transport reports a
  connect success only for a device the delegate asked it to connect.
\<close>

lemma within_capacity_cong:
  "max_devices s' = max_devices s \<Longrightarrow> connected_ids s' = connected_ids s \<Longrightarrow>
   connecting_ids s' = connecting_ids s \<Longrightarrow> within_capacity s' = within_capacity s"
  by (simp add: within_capacity_def split: option.splits)

lemma wc_shrink:
  "max_devices s' = max_devices s \<Longrightarrow> fcard (connected_ids s') \<le> fcard (connected_ids s) \<Longrightarrow>
   fcard (connecting_ids s') \<le> fcard (connecting_ids s) \<Longrightarrow>
   within_capacity s \<Longrightarrow> within_capacity s'"
  by (auto simp: within_capacity_def split: option.splits)

lemma wc_connect_peripheral:
  assumes "within_capacity s" and "\<not> at_capacity s"
  shows "within_capacity (connect_peripheral p adv s)"
proof -
  have m: "max_devices (connect_peripheral p adv s) = max_devices s"
    and c: "connected_ids (connect_peripheral p adv s) = connected_ids s"
    by (simp_all add: connect_peripheral_def update_name_def Let_def)
  have g: "fcard (connecting_ids (connect_peripheral p adv s)) \<le> Suc (fcard (connecting_ids s))"
    by (simp add: connect_peripheral_def update_name_def Let_def fcard_finsert_if)
  from assms m c g show ?thesis
    by (auto simp: within_capacity_def at_capacity_def Let_def split: option.splits)
qed

lemma wc_did_discover:
  assumes "within_capacity s"
  shows "within_capacity (did_discover now p adv s)"
proof -
  let ?s1 = "s\<lparr>peripherals := (peripherals s)(periph_identifier p \<mapsto> p)\<rparr>"
  let ?s2 = "update_name p adv ?s1"
  let ?s3 = "snd (match_device now p adv ?s2)"
  have e2: "?s2 = ?s1\<lparr>name_by_id := name_by_id ?s2\<rparr>"
    by (rule update_name_only_names)
  have e3: "?s3 = ?s2\<lparr>blocked_ids := blocked_ids ?s3\<rparr>"
    by (rule match_device_only_blocked)
  have m: "max_devices ?s3 = max_devices s" by (subst e3, subst e2) simp
  have c: "connected_ids ?s3 = connected_ids s" by (subst e3, subst e2) simp
  have g: "connecting_ids ?s3 = connecting_ids s" by (subst e3, subst e2) simp
  have w3: "within_capacity ?s3"
    using assms within_capacity_cong [OF m c g] by simp
  then have "\<not> at_capacity ?s3 \<Longrightarrow> within_capacity (connect_peripheral p adv ?s3)"
    by (rule wc_connect_peripheral)
  with w3 show ?thesis
    by (simp add: did_discover_def Let_def split_beta)
qed

lemma wc_match_device:
  "within_capacity s \<Longrightarrow> within_capacity (snd (match_device now p adv s))"
  by (rule within_capacity_cong [THEN iffD2])
    (simp_all add: match_device_def Let_def split: option.splits)

lemma wc_retrieve_loop: "within_capacity s \<Longrightarrow> within_capacity (retrieve_loop now ps s)"
proof (induction ps arbitrary: s)
  case Nil
  then show ?case by simp
next
  case (Cons p ps)
  show ?case
  proof (cases "at_capacity s")
    case True
    with Cons.prems show ?thesis by simp
  next
    case False
    let ?s1 = "snd (match_device now p None s)"
    have e: "?s1 = s\<lparr>blocked_ids := blocked_ids ?s1\<rparr>"
      by (rule match_device_only_blocked)
    have m: "max_devices ?s1 = max_devices s" by (subst e) simp
    have c: "connected_ids ?s1 = connected_ids s" by (subst e) simp
    have g: "connecting_ids ?s1 = connecting_ids s" by (subst e) simp
    have w1: "within_capacity ?s1"
      using Cons.prems by (rule wc_match_device)
    have "\<not> at_capacity ?s1"
      using False at_capacity_cong [OF m c g] by simp
    with w1 have "within_capacity (connect_peripheral p None ?s1)"
      by (rule wc_connect_peripheral)
    with w1 False Cons.IH show ?thesis
      by (simp add: split_beta)
  qed
qed

lemma wc_start_scan: "within_capacity s \<Longrightarrow> within_capacity (start_scan now s)"
  by (rule within_capacity_cong [THEN iffD2]) (simp_all add: start_scan_def)

lemma wc_did_update_state:
  assumes "within_capacity s"
  shows "within_capacity (did_update_state now powered ps s)"
proof -
  from assms have "within_capacity (s\<lparr>central := True\<rparr>)"
    by (rule within_capacity_cong [THEN iffD2, rotated -1]) simp_all
  then show ?thesis
    by (simp add: did_update_state_def Let_def wc_start_scan wc_retrieve_loop)
qed

lemma fcard_move:
  assumes "d |\<in>| B \<or> d |\<in>| A"
  shows "fcard (finsert d A) + fcard (B |-| {|d|}) \<le> fcard A + fcard B"
proof (cases "d |\<in>| A")
  case True
  then have "finsert d A = A" by auto
  moreover have "fcard (B |-| {|d|}) \<le> fcard B"
    by (rule fcard_fminus1_le)
  ultimately show ?thesis by simp
next
  case False
  with assms have "d |\<in>| B" by simp
  then have "fcard B = Suc (fcard (B |-| {|d|}))"
    by (rule fcard_Suc_fminus1 [symmetric])
  with False show ?thesis by (simp add: fcard_finsert_if)
qed

lemma wc_did_connect:
  assumes "within_capacity s"
    and "periph_identifier p |\<in>| connecting_ids s \<or> periph_identifier p |\<in>| connected_ids s"
  shows "within_capacity (did_connect p s)"
proof -
  let ?d = "periph_identifier p"
  have m: "max_devices (did_connect p s) = max_devices s"
    and c: "connected_ids (did_connect p s) = finsert ?d (connected_ids s)"
    and g: "connecting_ids (did_connect p s) = connecting_ids s |-| {|?d|}"
    by (simp_all add: did_connect_def reset_reconnect_def Let_def)
  from fcard_move [OF assms(2)] assms(1) show ?thesis
    by (auto simp: within_capacity_def m c g split: option.splits)
qed

lemma wc_did_fail: "within_capacity s \<Longrightarrow> within_capacity (did_fail_to_connect now p s)"
  by (rule wc_shrink [of _ s])
    (simp_all add: did_fail_to_connect_def schedule_reconnect_def Let_def fcard_fminus1_le)

lemma wc_did_disconnect: "within_capacity s \<Longrightarrow> within_capacity (did_disconnect now p s)"
  by (rule wc_shrink [of _ s])
    (simp_all add: did_disconnect_def schedule_reconnect_def Let_def fcard_fminus1_le
      split: option.splits)

lemma wc_did_discover_services:
  "within_capacity s \<Longrightarrow> within_capacity (did_discover_services now p err s)"
  by (rule within_capacity_cong [THEN iffD2])
    (simp_all add: did_discover_services_def schedule_reconnect_def
      block_device_def cancel_connection_def Let_def)

lemma wc_did_discover_chars:
  "within_capacity s \<Longrightarrow> within_capacity (did_discover_characteristics now p sv err s)"
  by (rule within_capacity_cong [THEN iffD2])
    (simp_all add: did_discover_characteristics_def schedule_reconnect_def
      block_device_def cancel_connection_def Let_def)

lemma wc_did_update_value:
  "within_capacity s \<Longrightarrow> within_capacity (did_update_value now p v err s)"
  by (rule within_capacity_cong [THEN iffD2])
    (simp_all add: did_update_value_def update_name_def write_hr_def Let_def
      split: option.splits)

lemma within_capacity_step:
  "within_capacity s \<Longrightarrow> \<not> is_tick e \<Longrightarrow> connect_announced e s \<Longrightarrow>
   within_capacity (step e s)"
  by (cases e)
    (simp_all add: wc_did_update_state wc_did_discover wc_did_connect wc_did_fail
      wc_did_disconnect wc_did_discover_services wc_did_discover_chars wc_did_update_value)


section \<open>Blocked devices and pending reconnects\<close>

lemma default_config_eq: "default_config = init"
  by (simp add: default_config_def configure_def set_preferred_def set_filters_def
      set_output_def init_def lowered_nonempty_Nil)

lemmas blk_defs = blk1_def blk2_def blk3_def blk4_def blk5_def blk6_def blk7_def blk8_def
  strap_a_def strap_two_services_def init_def

lemma blk_step1: "step (DidUpdateState 0 True []) default_config = blk1"
  by (simp add: default_config_eq blk_defs did_update_state_def start_scan_def)

lemma blk_step2: "step (DidDiscover 1 strap_a None) blk1 = blk2"
  by (simp add: blk_defs did_discover_def update_name_def match_device_def match_filters_def
      is_preferred_def should_defer_non_preferred_def at_capacity_def connect_peripheral_def
      Let_def)

lemma blk_step3: "step (DidConnect 2 strap_a) blk2 = blk3"
  by (simp add: blk_defs did_connect_def reset_reconnect_def is_pending_def Let_def)

lemma blk_step4: "step (DidDiscoverServices 3 strap_two_services False) blk3 = blk4"
  by (simp add: blk_defs did_discover_services_def HR_SERVICE_def Let_def)

lemma blk_step5:
  "step (DidDiscoverCharacteristics 4 strap_two_services (Service ''180D'' (Some [''2A38'']))
     False) blk4 = blk5"
  by (simp add: blk_defs did_discover_characteristics_def block_device_def
      cancel_connection_def is_pending_def label_def HR_MEAS_def Let_def)

lemma blk_step6:
  "step (DidDiscoverCharacteristics 5 strap_two_services (Service ''180D'' None) True) blk5
     = blk6"
  by (simp add: blk_defs did_discover_characteristics_def schedule_reconnect_def
      is_pending_def label_def Let_def)

lemma blk_step7: "step (DidDisconnect 6 strap_two_services) blk6 = blk7"
  by (simp add: blk_defs did_disconnect_def schedule_reconnect_def is_pending_def label_def
      Let_def)

lemma blk_step8: "step (Tick 10 True) blk7 = blk8"
  by (simp add: blk_defs tick_def tick_entry_def label_def Let_def)

lemma run_block_prefix: "run block_prefix default_config = blk6"
  using blk_step1 blk_step2 blk_step3 blk_step4 blk_step5 blk_step6
  by (simp add: block_prefix_def)

lemma run_block_trace: "run block_trace default_config = blk8"
  using blk_step1 blk_step2 blk_step3 blk_step4 blk_step5 blk_step6 blk_step7 blk_step8
  by (simp add: block_trace_def block_prefix_def)

text \<open>
  Claim C3 says that a device with an unexpired block entry never has a
  pending-reconnect entry. The disconnect callback keeps to this, but the callbacks
  for a failed connect and for a failed service or characteristic discovery schedule a
  reconnect without looking at the block dictionary. After \<open>block_prefix\<close>, at time
  5, strap A is blocked until time 64 and has a reconnect pending for time 10; the
  tick at time 10 then asks the transport to connect to the blocked strap.
\<close>

theorem C3_blocked_device_pending:
  "blocked_ids (run block_prefix default_config) ''A'' = Some 64
   \<and> map_of (pending_reconnect (run block_prefix default_config)) ''A'' = Some 10
   \<and> blocked_ids (run block_trace default_config) ''A'' = Some 64
   \<and> last (requests (run block_trace default_config)) = ConnectPeripheral ''A''
   \<and> connecting_ids (run block_trace default_config) = {|''A''|}"
  by (simp add: run_block_prefix run_block_trace blk_defs)

text \<open>
  The parts of claim C3 the code keeps: blocking removes the pending-reconnect entry;
  a disconnect under an active block schedules nothing; once the block has expired,
  a disconnect schedules a reconnect again and discovery matching drops the entry and
  goes on to the filters.
\<close>

lemma block_device_clears_pending:
  "\<not> is_pending (block_device now device_id reason s) device_id
   \<and> blocked_ids (block_device now device_id reason s) device_id = Some (now + blocked_ttl s)"
  by (simp add: block_device_def is_pending_def Let_def delete_conv')

lemma did_disconnect_blocked:
  "blocked_ids s (periph_identifier p) = Some until \<Longrightarrow> now < until \<Longrightarrow>
   pending_reconnect (did_disconnect now p s) = pending_reconnect s"
  by (simp add: did_disconnect_def Let_def)

lemma did_disconnect_expired:
  "blocked_ids s (periph_identifier p) = Some until \<Longrightarrow> until \<le> now \<Longrightarrow>
   is_pending (did_disconnect now p s) (periph_identifier p)"
  by (simp add: did_disconnect_def Let_def is_pending_schedule_reconnect)

lemma match_device_blocked:
  "blocked_ids s (periph_identifier p) = Some until \<Longrightarrow> now < until \<Longrightarrow>
   match_device now p adv s = (False, s)"
  by (simp add: match_device_def Let_def)

lemma match_device_expired:
  "blocked_ids s (periph_identifier p) = Some until \<Longrightarrow> until \<le> now \<Longrightarrow>
   blocked_ids (snd (match_device now p adv s)) (periph_identifier p) = None
   \<and> fst (match_device now p adv s) = match_filters p adv s"
  by (simp add: match_device_def Let_def match_filters_def)

section \<open>The cached display name\<close>

text \<open>
  Claim C7 says that a device name arriving after an advertised name never replaces
  it. It does: the notification callback calls \<^verbatim>\<open>_update_name\<close> without an
  advertisement, and the cache keeps no record of where a name came from. Here the
  advertised name cached on discovery is replaced by the shorter device name on the
  first notification that decodes.
\<close>

theorem C7_device_name_overwrites_advertised:
  "name_by_id (update_name polar polar_adv init) ''A'' = Some ''Polar H10 0A1B''
   \<and> name_by_id
        (did_update_value 2 polar (Some [0, 72]) False (update_name polar polar_adv init)) ''A''
      = Some ''Polar''"
  by (simp add: polar_def polar_adv_def update_name_def did_update_value_def
      parse_hr_measurement_def write_hr_def label_def init_def Let_def)

text \<open>
  Claim C7, amended. One call of \<^verbatim>\<open>_update_name\<close> prefers the advertised local
  name: when the advertisement carries a non-empty local name, that name replaces
  whatever is cached for the device. Otherwise (no advertisement, or no local name in
  it) a non-empty device name replaces whatever is cached, an earlier advertised name
  included, and with no name at all the cache is left as it is. No other device's
  entry changes. A notification that decodes updates the cache as
  \<^verbatim>\<open>_update_name\<close> without an advertisement does.
\<close>

theorem C7_update_name_amended:
  "name_by_id (update_name p adv s) =
     (if truthy (case adv of None \<Rightarrow> None | Some a \<Rightarrow> local_name a)
      then (name_by_id s)(periph_identifier p \<mapsto>
             or_empty (case adv of None \<Rightarrow> None | Some a \<Rightarrow> local_name a))
      else if truthy (periph_name p)
      then (name_by_id s)(periph_identifier p \<mapsto> or_empty (periph_name p))
      else name_by_id s)
   \<and> (parse_hr_measurement data = Some hr \<longrightarrow>
        name_by_id (did_update_value now p (Some data) False s)
          = name_by_id (update_name p None s))"
  by (simp add: update_name_def did_update_value_def write_hr_def Let_def)

theorem C7_update_name_amended_witness:
  "parse_hr_measurement [0, 72] = Some 72
   \<and> name_by_id (update_name polar polar_adv init)
       = (name_by_id init)(''A'' \<mapsto> ''Polar H10 0A1B'')
   \<and> name_by_id
        (did_update_value 2 polar (Some [0, 72]) False (update_name polar polar_adv init))
       = name_by_id (update_name polar None (update_name polar polar_adv init))"
  using C7_update_name_amended [where p = polar and adv = polar_adv and s = init
      and data = "[0, 72]" and hr = 72 and now = 2]
    C7_update_name_amended [where p = polar and adv = None
      and s = "update_name polar polar_adv init" and data = "[0, 72]" and hr = 72 and now = 2]
  by (simp add: parse_hr_measurement_def polar_def polar_adv_def)

section \<open>The pending-reconnect dictionary keeps its keys distinct\<close>

lemma dp_tick_entry:
  "distinct (map fst (pending_reconnect s)) \<Longrightarrow>
   distinct (map fst (pending_reconnect (tick_entry now e s)))"
  by (cases e)
    (simp add: tick_entry_def start_scan_def stop_scan_def Let_def distinct_update
      distinct_delete split: option.splits)

lemma dp_tick_loop:
  "distinct (map fst (pending_reconnect s)) \<Longrightarrow>
   distinct (map fst (pending_reconnect (tick_loop now es s)))"
  by (induction es arbitrary: s) (simp_all add: dp_tick_entry)

lemma dp_not_ready_loop:
  "distinct (map fst (pending_reconnect s)) \<Longrightarrow>
   distinct (map fst (pending_reconnect (not_ready_loop now ds s)))"
  by (induction ds arbitrary: s) (simp_all add: not_ready_entry_def distinct_update)

lemma dp_tick:
  "distinct (map fst (pending_reconnect s)) \<Longrightarrow>
   distinct (map fst (pending_reconnect (tick now powered s)))"
  by (simp add: tick_def dp_tick_loop dp_not_ready_loop)

lemma pending_update_name: "pending_reconnect (update_name p adv s) = pending_reconnect s"
  by (simp add: update_name_def Let_def)

lemma pending_match_device:
  "pending_reconnect (snd (match_device now p adv s)) = pending_reconnect s"
  by (simp add: match_device_def Let_def split: option.splits)

lemma pending_connect_peripheral:
  "pending_reconnect (connect_peripheral p adv s) = pending_reconnect s"
  by (simp add: connect_peripheral_def update_name_def Let_def)

lemma pending_retrieve_loop: "pending_reconnect (retrieve_loop now ps s) = pending_reconnect s"
proof (induction ps arbitrary: s)
  case Nil
  then show ?case by simp
next
  case (Cons p ps)
  show ?case
    by (simp add: split_beta Cons.IH pending_connect_peripheral pending_match_device)
qed

lemma pending_did_update_state:
  "pending_reconnect (did_update_state now powered ps s) = pending_reconnect s"
  by (simp add: did_update_state_def start_scan_def Let_def pending_retrieve_loop)

lemma pending_did_discover:
  "pending_reconnect (did_discover now p adv s) = pending_reconnect s"
  by (simp add: did_discover_def Let_def split_beta pending_connect_peripheral
      pending_match_device pending_update_name)

lemma dp_schedule_reconnect:
  "distinct (map fst (pending_reconnect s)) \<Longrightarrow>
   distinct (map fst (pending_reconnect (schedule_reconnect now d r s)))"
  by (simp add: schedule_reconnect_def Let_def distinct_update)

lemma dp_block_device:
  "distinct (map fst (pending_reconnect s)) \<Longrightarrow>
   distinct (map fst (pending_reconnect (block_device now d r s)))"
  by (simp add: block_device_def Let_def distinct_delete)

lemma dp_step:
  "distinct (map fst (pending_reconnect s)) \<Longrightarrow>
   distinct (map fst (pending_reconnect (step e s)))"
proof (cases e)
  case (Tick now powered)
  then show "distinct (map fst (pending_reconnect s)) \<Longrightarrow> ?thesis"
    by (simp add: dp_tick)
next
  case (DidUpdateState now powered ps)
  then show "distinct (map fst (pending_reconnect s)) \<Longrightarrow> ?thesis"
    by (simp add: pending_did_update_state)
next
  case (DidDiscover now p adv)
  then show "distinct (map fst (pending_reconnect s)) \<Longrightarrow> ?thesis"
    by (simp add: pending_did_discover)
next
  case (DidConnect now p)
  then show "distinct (map fst (pending_reconnect s)) \<Longrightarrow> ?thesis"
    by (simp add: did_connect_def reset_reconnect_def Let_def distinct_delete)
next
  case (DidFailToConnect now p)
  then show "distinct (map fst (pending_reconnect s)) \<Longrightarrow> ?thesis"
    by (simp add: did_fail_to_connect_def Let_def dp_schedule_reconnect)
next
  case (DidDisconnect now p)
  then show "distinct (map fst (pending_reconnect s)) \<Longrightarrow> ?thesis"
    by (simp add: did_disconnect_def Let_def dp_schedule_reconnect split: option.splits)
next
  case (DidDiscoverServices now p err)
  then show "distinct (map fst (pending_reconnect s)) \<Longrightarrow> ?thesis"
    by (simp add: did_discover_services_def cancel_connection_def Let_def
        dp_schedule_reconnect dp_block_device)
next
  case (DidDiscoverCharacteristics now p sv err)
  then show "distinct (map fst (pending_reconnect s)) \<Longrightarrow> ?thesis"
    by (simp add: did_discover_characteristics_def cancel_connection_def Let_def
        dp_schedule_reconnect dp_block_device)
next
  case (DidUpdateValue now p v err)
  then show "distinct (map fst (pending_reconnect s)) \<Longrightarrow> ?thesis"
    by (simp add: did_update_value_def write_hr_def update_name_def Let_def
        split: option.splits)
qed

lemma dp_run:
  "distinct (map fst (pending_reconnect s)) \<Longrightarrow>
   distinct (map fst (pending_reconnect (run evs s)))"
  by (induction evs arbitrary: s) (simp_all add: dp_step)

lemma dp_configure:
  "distinct (map fst (pending_reconnect (run evs (configure path names ids maxd sa preferred grace))))"
  by (rule dp_run)
    (simp add: configure_def set_preferred_def set_filters_def set_output_def init_def)


section \<open>Properties of the reconnect tick\<close>

lemma update_mid:
  "k \<notin> fst ` set pre \<Longrightarrow> AList.update k v (pre @ (k, w) # rest) = pre @ (k, v) # rest"
  by (induction pre) auto

lemma delete_mid:
  "k \<notin> fst ` set pre \<Longrightarrow> k \<notin> fst ` set rest \<Longrightarrow>
   AList.delete k (pre @ (k, w) # rest) = pre @ rest"
  by (induction pre) auto

lemma tick_entry_not_due: "now < ts \<Longrightarrow> tick_entry now (d, ts) s = s"
  by (simp add: tick_entry_def)

lemma tick_entry_connected:
  "\<not> now < ts \<Longrightarrow> d |\<in>| connected_ids s \<Longrightarrow>
   tick_entry now (d, ts) s = s\<lparr>pending_reconnect := AList.delete d (pending_reconnect s)\<rparr>"
  by (simp add: tick_entry_def)

lemma tick_entry_connecting:
  "\<not> now < ts \<Longrightarrow> d |\<notin>| connected_ids s \<Longrightarrow> d |\<in>| connecting_ids s \<Longrightarrow>
   tick_entry now (d, ts) s =
     s\<lparr>pending_reconnect := AList.update d (now + reconnect_interval s) (pending_reconnect s)\<rparr>"
  by (simp add: tick_entry_def)

lemma tick_entry_connect:
  "wants_connect now s (d, ts) \<Longrightarrow>
   tick_entry now (d, ts) s =
     s\<lparr>connecting_ids := finsert d (connecting_ids s),
       stderr := stderr s @ [ReconnectAttemptConnect (label s d)],
       requests := requests s @ [SetDelegate d, ConnectPeripheral d],
       pending_reconnect := AList.update d (now + reconnect_interval s) (pending_reconnect s)\<rparr>"
  by (auto simp: tick_entry_def wants_connect_def)

lemma tick_entry_scan:
  "wants_scan now s (d, ts) \<Longrightarrow> central s \<Longrightarrow>
   tick_entry now (d, ts) s =
     s\<lparr>stderr := stderr s @ [ReconnectAttemptScan],
       scanning := True,
       requests := requests s @ (if scanning s then [StopScan] else []) @ [scan_request s],
       last_scan_start := Some now,
       pending_reconnect := AList.update d (now + reconnect_interval s) (pending_reconnect s)\<rparr>"
  by (simp add: tick_entry_def wants_scan_def start_scan_def stop_scan_def scan_request_def Let_def)


lemma rearmed_cong:
  "connected_ids s' = connected_ids s \<Longrightarrow> reconnect_interval s' = reconnect_interval s \<Longrightarrow>
   rearmed now s' e = rearmed now s e"
  by (cases e) (simp add: rearmed_def)

lemma wants_connect_cong:
  "connected_ids s' = connected_ids s \<Longrightarrow> peripherals s' = peripherals s \<Longrightarrow>
   (fst e |\<in>| connecting_ids s') = (fst e |\<in>| connecting_ids s) \<Longrightarrow>
   wants_connect now s' e = wants_connect now s e"
  by (cases e) (simp add: wants_connect_def)

lemma wants_scan_cong:
  "connected_ids s' = connected_ids s \<Longrightarrow> peripherals s' = peripherals s \<Longrightarrow>
   (fst e |\<in>| connecting_ids s') = (fst e |\<in>| connecting_ids s) \<Longrightarrow>
   wants_scan now s' e = wants_scan now s e"
  by (cases e) (simp add: wants_scan_def)

lemma tick_requests_cong:
  "list_all (\<lambda>e. wants_connect now s' e = wants_connect now s e
                \<and> wants_scan now s' e = wants_scan now s e) es \<Longrightarrow>
   scan_all s' = scan_all s \<Longrightarrow>
   tick_requests now s' sc es = tick_requests now s sc es"
  by (induction es arbitrary: sc) (simp_all add: scan_request_def)

lemma tick_requests_Cons:
  "tick_requests now s sc (e # es) =
     tick_requests now s sc [e] @ tick_requests now s (sc \<or> wants_scan now s e) es"
  by (cases e) (auto simp: wants_connect_def wants_scan_def)

lemma keys_rearmed: "set (map fst (rearmed now s (d, ts))) \<subseteq> {d}"
  by (simp add: rearmed_def)

lemma distinct_rearmed: "distinct (map fst (rearmed now s (d, ts)))"
  by (simp add: rearmed_def)

lemma tick_entry_char:
  assumes p: "pending_reconnect s = pre @ (d, ts) # rest"
    and dist: "distinct (map fst (pre @ (d, ts) # rest))"
    and c: "central s"
  shows "pending_reconnect (tick_entry now (d, ts) s) = (pre @ rearmed now s (d, ts)) @ rest
    \<and> connecting_ids (tick_entry now (d, ts) s)
        = (if wants_connect now s (d, ts) then finsert d (connecting_ids s) else connecting_ids s)
    \<and> connected_ids (tick_entry now (d, ts) s) = connected_ids s
    \<and> peripherals (tick_entry now (d, ts) s) = peripherals s
    \<and> reconnect_interval (tick_entry now (d, ts) s) = reconnect_interval s
    \<and> central (tick_entry now (d, ts) s)
    \<and> scan_all (tick_entry now (d, ts) s) = scan_all s
    \<and> requests (tick_entry now (d, ts) s) = requests s @ tick_requests now s (scanning s) [(d, ts)]
    \<and> scanning (tick_entry now (d, ts) s) = (scanning s \<or> wants_scan now s (d, ts))
    \<and> last_scan_start (tick_entry now (d, ts) s)
        = (if wants_scan now s (d, ts) then Some now else last_scan_start s)"
proof -
  from dist have k1: "d \<notin> fst ` set pre" and k2: "d \<notin> fst ` set rest"
    by auto
  have upd: "AList.update d v (pending_reconnect s) = pre @ (d, v) # rest" for v
    using k1 by (simp add: p update_mid)
  have del: "AList.delete d (pending_reconnect s) = pre @ rest"
    using k1 k2 by (simp add: p delete_mid)
  consider (not_due) "now < ts"
    | (connected) "\<not> now < ts" "d |\<in>| connected_ids s"
    | (connecting) "\<not> now < ts" "d |\<notin>| connected_ids s" "d |\<in>| connecting_ids s"
    | (connect) "wants_connect now s (d, ts)"
    | (scan) "wants_scan now s (d, ts)"
    by (cases "peripherals s d") (auto simp: wants_connect_def wants_scan_def)
  then show ?thesis
  proof cases
    case not_due
    then show ?thesis
      using c by (simp add: tick_entry_not_due p rearmed_def wants_connect_def wants_scan_def)
  next
    case connected
    then show ?thesis
      using c by (simp add: tick_entry_connected del rearmed_def wants_connect_def wants_scan_def)
  next
    case connecting
    then show ?thesis
      using c by (simp add: tick_entry_connecting upd rearmed_def wants_connect_def wants_scan_def)
  next
    case connect
    then have r: "rearmed now s (d, ts) = [(d, now + reconnect_interval s)]"
      and ns: "\<not> wants_scan now s (d, ts)"
      by (simp_all add: rearmed_def wants_connect_def wants_scan_def)
    from connect show ?thesis
      using c by (simp add: tick_entry_connect upd r ns)
  next
    case scan
    then have r: "rearmed now s (d, ts) = [(d, now + reconnect_interval s)]"
      and nc: "\<not> wants_connect now s (d, ts)"
      by (simp_all add: rearmed_def wants_connect_def wants_scan_def)
    from scan show ?thesis
      using c by (simp add: tick_entry_scan upd r nc)
  qed
qed

lemma tick_loop_char:
  assumes "pending_reconnect s = pre @ es"
    and "distinct (map fst (pre @ es))"
    and "central s"
  shows "pending_reconnect (tick_loop now es s) = pre @ concat (map (rearmed now s) es)
    \<and> connecting_ids (tick_loop now es s)
        = connecting_ids s |\<union>| fset_of_list (map fst (filter (wants_connect now s) es))
    \<and> connected_ids (tick_loop now es s) = connected_ids s
    \<and> requests (tick_loop now es s) = requests s @ tick_requests now s (scanning s) es
    \<and> scanning (tick_loop now es s) = (scanning s \<or> list_ex (wants_scan now s) es)
    \<and> last_scan_start (tick_loop now es s)
        = (if list_ex (wants_scan now s) es then Some now else last_scan_start s)"
  using assms
proof (induction es arbitrary: s pre)
  case Nil
  then show ?case by simp
next
  case (Cons e es)
  obtain d ts where e: "e = (d, ts)" by (cases e)
  let ?s1 = "tick_entry now (d, ts) s"
  have p: "pending_reconnect s = pre @ (d, ts) # es"
    and dist: "distinct (map fst (pre @ (d, ts) # es))"
    using Cons.prems e by simp_all
  note ch = tick_entry_char [OF p dist Cons.prems(3), of now]
  from ch have p1: "pending_reconnect ?s1 = (pre @ rearmed now s (d, ts)) @ es" by blast
  from ch have cg1: "connecting_ids ?s1
        = (if wants_connect now s (d, ts) then finsert d (connecting_ids s) else connecting_ids s)"
    by blast
  from ch have cd1: "connected_ids ?s1 = connected_ids s" by blast
  from ch have pe1: "peripherals ?s1 = peripherals s" by blast
  from ch have ri1: "reconnect_interval ?s1 = reconnect_interval s" by blast
  from ch have c1: "central ?s1" by blast
  from ch have sa1: "scan_all ?s1 = scan_all s" by blast
  from ch have rq1: "requests ?s1 = requests s @ tick_requests now s (scanning s) [(d, ts)]"
    by blast
  from ch have sc1: "scanning ?s1 = (scanning s \<or> wants_scan now s (d, ts))" by blast
  from ch have ls1: "last_scan_start ?s1
        = (if wants_scan now s (d, ts) then Some now else last_scan_start s)" by blast
  have dist1: "distinct (map fst ((pre @ rearmed now s (d, ts)) @ es))"
    using dist keys_rearmed [of now s d ts] distinct_rearmed [of now s d ts]
    by (auto simp: rearmed_def)
  note ih = Cons.IH [OF p1 dist1 c1]
  have other: "fst e' \<noteq> d" if "e' \<in> set es" for e'
    using dist that by auto
  have mem: "(fst e' |\<in>| connecting_ids ?s1) = (fst e' |\<in>| connecting_ids s)"
    if "e' \<in> set es" for e'
    using other [OF that] by (simp add: cg1)
  have wc: "wants_connect now ?s1 e' = wants_connect now s e'" if "e' \<in> set es" for e'
    using wants_connect_cong [OF cd1 pe1 mem [OF that]] .
  have ws: "wants_scan now ?s1 e' = wants_scan now s e'" if "e' \<in> set es" for e'
    using wants_scan_cong [OF cd1 pe1 mem [OF that]] .
  have ra: "rearmed now ?s1 = rearmed now s"
    by (rule ext) (rule rearmed_cong [OF cd1 ri1])
  have fwc: "filter (wants_connect now ?s1) es = filter (wants_connect now s) es"
    by (rule filter_cong) (simp_all add: wc)
  have lws: "list_ex (wants_scan now ?s1) es = list_ex (wants_scan now s) es"
    by (simp add: list_ex_iff ws)
  have trq: "tick_requests now ?s1 sc es = tick_requests now s sc es" for sc
    by (rule tick_requests_cong) (simp_all add: list_all_iff wc ws sa1)
  from ih have "pending_reconnect (tick_loop now es ?s1)
      = (pre @ rearmed now s (d, ts)) @ concat (map (rearmed now ?s1) es)" by blast
  then have g1: "pending_reconnect (tick_loop now (e # es) s)
      = pre @ concat (map (rearmed now s) (e # es))"
    by (simp add: e ra)
  from ih have "connecting_ids (tick_loop now es ?s1)
      = connecting_ids ?s1 |\<union>| fset_of_list (map fst (filter (wants_connect now ?s1) es))"
    by blast
  then have g2: "connecting_ids (tick_loop now (e # es) s)
      = connecting_ids s |\<union>| fset_of_list (map fst (filter (wants_connect now s) (e # es)))"
    by (simp add: e fwc cg1)
  from ih have "connected_ids (tick_loop now es ?s1) = connected_ids ?s1" by blast
  then have g3: "connected_ids (tick_loop now (e # es) s) = connected_ids s"
    by (simp add: e cd1)
  from ih have "requests (tick_loop now es ?s1)
      = requests ?s1 @ tick_requests now ?s1 (scanning ?s1) es" by blast
  then have g4: "requests (tick_loop now (e # es) s)
      = requests s @ tick_requests now s (scanning s) (e # es)"
    using tick_requests_Cons [of now s "scanning s" "(d, ts)" es]
    by (simp add: e trq rq1 sc1)
  from ih have "scanning (tick_loop now es ?s1)
      = (scanning ?s1 \<or> list_ex (wants_scan now ?s1) es)" by blast
  then have g5: "scanning (tick_loop now (e # es) s)
      = (scanning s \<or> list_ex (wants_scan now s) (e # es))"
    by (simp add: e lws sc1)
  from ih have "last_scan_start (tick_loop now es ?s1)
      = (if list_ex (wants_scan now ?s1) es then Some now else last_scan_start ?s1)" by blast
  then have g6: "last_scan_start (tick_loop now (e # es) s)
      = (if list_ex (wants_scan now s) (e # es) then Some now else last_scan_start s)"
    by (simp add: e lws ls1)
  from g1 g2 g3 g4 g5 g6 show ?case by blast
qed


lemma not_ready_loop_char:
  assumes "pending_reconnect s = pre @ es"
    and "distinct (map fst (pre @ es))"
  shows "pending_reconnect (not_ready_loop now (map fst es) s)
        = pre @ map (\<lambda>e. (fst e, now + reconnect_interval s)) es
    \<and> requests (not_ready_loop now (map fst es) s) = requests s
    \<and> connecting_ids (not_ready_loop now (map fst es) s) = connecting_ids s
    \<and> connected_ids (not_ready_loop now (map fst es) s) = connected_ids s
    \<and> scanning (not_ready_loop now (map fst es) s) = scanning s
    \<and> last_scan_start (not_ready_loop now (map fst es) s) = last_scan_start s"
  using assms
proof (induction es arbitrary: s pre)
  case Nil
  then show ?case by simp
next
  case (Cons e es)
  obtain d ts where e: "e = (d, ts)" by (cases e)
  let ?v = "now + reconnect_interval s"
  let ?s1 = "not_ready_entry now d s"
  from Cons.prems e have k: "d \<notin> fst ` set pre" by auto
  have p1: "pending_reconnect ?s1 = (pre @ [(d, ?v)]) @ es"
    using k Cons.prems(1) e by (simp add: not_ready_entry_def update_mid)
  have dist1: "distinct (map fst ((pre @ [(d, ?v)]) @ es))"
    using Cons.prems(2) e by simp
  have ri: "reconnect_interval ?s1 = reconnect_interval s"
    by (simp add: not_ready_entry_def)
  have fr: "requests ?s1 = requests s \<and> connecting_ids ?s1 = connecting_ids s
      \<and> connected_ids ?s1 = connected_ids s \<and> scanning ?s1 = scanning s
      \<and> last_scan_start ?s1 = last_scan_start s"
    by (simp add: not_ready_entry_def)
  from Cons.IH [OF p1 dist1] fr show ?case
    by (simp add: e ri)
qed

lemma unpowered_pending_eq:
  "unpowered_pending = init\<lparr>central := True, pending_reconnect := [(''A'', 15)],
     stderr := [DisconnectedMsg, Reconnecting ''Disconnected.'' 5 ''A'']\<rparr>"
  by (simp add: unpowered_pending_def default_config_eq did_update_state_def did_disconnect_def
      schedule_reconnect_def is_pending_def label_def strap_a_def init_def Let_def)

text \<open>
  Claim C5 says that a tick with the transport not powered on pushes the time of the
  next attempt of every pending entry forward by the backoff interval. The code sets
  it to \<open>now\<close> plus the backoff instead: an entry due at time 15, seen by a tick at
  time 12 with a backoff of 5, moves to 17 and not to 20.
\<close>

theorem C5_unpowered_tick_sets_now_plus_backoff:
  "pending_reconnect unpowered_pending = [(''A'', 15)]
   \<and> reconnect_interval unpowered_pending = 5
   \<and> pending_reconnect (tick 12 False unpowered_pending) = [(''A'', 17)]
   \<and> pending_reconnect (tick 12 False unpowered_pending) \<noteq> [(''A'', 15 + 5)]"
  by (simp add: unpowered_pending_eq tick_def not_ready_entry_def init_def)

text \<open>
  Claim C5, amended. On a tick with the transport not powered on (or not yet known),
  the time of the next attempt of every pending entry is set to \<open>now\<close> plus the
  backoff, whatever it was, and nothing else happens: no request, no change of the
  connecting set or of the scan. On a tick with the transport powered on, every
  pending entry that is not due is kept; a due entry of a connected device is dropped;
  every other due entry is re-armed to \<open>now\<close> plus the backoff, where a device
  already connecting gets no request, a device with a cached handle is added to the
  connecting set and gets one connect request, and for a device without a cached
  handle the scan is stopped if active and started again. The order of the entries is
  kept. This holds whenever the keys of the pending dictionary are distinct, as they
  are in every run.
\<close>

theorem C5_tick_amended:
  assumes "distinct (map fst (pending_reconnect s))"
  shows "(\<not> (central s \<and> powered) \<longrightarrow>
       pending_reconnect (tick now powered s)
         = map (\<lambda>e. (fst e, now + reconnect_interval s)) (pending_reconnect s)
       \<and> requests (tick now powered s) = requests s
       \<and> connecting_ids (tick now powered s) = connecting_ids s
       \<and> connected_ids (tick now powered s) = connected_ids s
       \<and> scanning (tick now powered s) = scanning s
       \<and> last_scan_start (tick now powered s) = last_scan_start s)
   \<and> (central s \<and> powered \<longrightarrow>
       pending_reconnect (tick now powered s)
         = concat (map (rearmed now s) (pending_reconnect s))
       \<and> connecting_ids (tick now powered s)
         = connecting_ids s
             |\<union>| fset_of_list (map fst (filter (wants_connect now s) (pending_reconnect s)))
       \<and> connected_ids (tick now powered s) = connected_ids s
       \<and> requests (tick now powered s)
         = requests s @ tick_requests now s (scanning s) (pending_reconnect s)
       \<and> scanning (tick now powered s)
         = (scanning s \<or> list_ex (wants_scan now s) (pending_reconnect s))
       \<and> last_scan_start (tick now powered s)
         = (if list_ex (wants_scan now s) (pending_reconnect s) then Some now
            else last_scan_start s))"
proof (cases "pending_reconnect s = []")
  case True
  then show ?thesis by (simp add: tick_def)
next
  case False
  have p: "pending_reconnect s = [] @ pending_reconnect s" by simp
  have d: "distinct (map fst ([] @ pending_reconnect s))" using assms by simp
  show ?thesis
  proof (cases "central s \<and> powered")
    case True
    then have c: "central s" by simp
    from True False have "tick now powered s = tick_loop now (pending_reconnect s) s"
      by (simp add: tick_def)
    with tick_loop_char [OF p d c, of now] True show ?thesis by simp
  next
    case nr: False
    with False have "tick now powered s = not_ready_loop now (map fst (pending_reconnect s)) s"
      by (auto simp: tick_def)
    with not_ready_loop_char [OF p d, of now] nr show ?thesis by auto
  qed
qed

theorem C5_tick_amended_witness:
  "distinct (map fst (pending_reconnect tick_example))
   \<and> central tick_example
   \<and> pending_reconnect (tick 10 True tick_example)
       = [(''B'', 15), (''C'', 15), (''D'', 15), (''E'', 50)]
   \<and> connecting_ids (tick 10 True tick_example) = {|''C'', ''B''|}
   \<and> requests (tick 10 True tick_example)
       = [SetDelegate ''C'', ConnectPeripheral ''C'', StopScan,
          ScanForPeripherals (Some [HR_SERVICE])]
   \<and> last_scan_start (tick 10 True tick_example) = Some 10
   \<and> pending_reconnect (tick 10 False tick_example)
       = [(''A'', 15), (''B'', 15), (''C'', 15), (''D'', 15), (''E'', 15)]
   \<and> requests (tick 10 False tick_example) = []"
  using C5_tick_amended [of tick_example True 10] C5_tick_amended [of tick_example False 10]
  by (simp add: tick_example_def rearmed_def wants_connect_def wants_scan_def
      scan_request_def init_def)


end
